theory Spec2Isabelle
  imports Complex_Main "HOL-Library.Multiset"
begin

section \<open>Conventions of the embedding\<close>

text \<open>
  The two scoring engines of the portfolio manager (\<^verbatim>\<open>utils/valuationRisk.ts\<close> and
  \<^verbatim>\<open>utils/cashAnalysis.ts\<close>) are pure functions over JavaScript numbers and
  plain objects.

  \<^item> A JavaScript \<^verbatim>\<open>number\<close> is modelled as an exact \<^typ>\<open>real\<close>: rounding of
    IEEE doubles, \<^verbatim>\<open>NaN\<close> and the infinities are outside the model.
  \<^item> An optional field \<^verbatim>\<open>x?: number\<close> is a \<^typ>\<open>real option\<close>; \<^verbatim>\<open>undefined\<close>
    is \<^term>\<open>None\<close>.
  \<^item> String unions are datatypes; interfaces are records. Where two interfaces of the
    source share a field name, the later record carries a short prefix.
  \<^item> The \<^verbatim>\<open>reason\<close> texts of the valuation engine are Korean templates with one
    formatted number interpolated. The model keeps an ASCII gloss of the template and
    the number before formatting; the constant Korean labels \<^verbatim>\<open>nameKo\<close> and
    \<^verbatim>\<open>label\<close> (functions of \<^verbatim>\<open>name\<close> and \<^verbatim>\<open>timeframe\<close>) and the
    \<^verbatim>\<open>timestamp\<close> read from the clock are left out.
\<close>

type_synonym Reason = "string \<times> real option"

text \<open>JavaScript truthiness of an optional number: \<^verbatim>\<open>undefined\<close> and \<^verbatim>\<open>0\<close> are falsy.\<close>

definition truthy :: "real option \<Rightarrow> bool" where
  "truthy x = (case x of None \<Rightarrow> False | Some v \<Rightarrow> v \<noteq> 0)"

text \<open>The nullish coalescing operator \<^verbatim>\<open>a ?? b\<close>.\<close>

definition nullish :: "'a option \<Rightarrow> 'a \<Rightarrow> 'a" where
  "nullish a b = (case a of None \<Rightarrow> b | Some v \<Rightarrow> v)"

section \<open>Valuation risk: types\<close>

datatype ValuationTimeframe = tf_short | tf_medium | tf_long

datatype ValuationRiskLevel = UNDERVALUED | FAIR_VALUE | ELEVATED | OVERVALUED | EXTREME

datatype AssetCategory = core | major | growth | speculative

record MetricAnalysis =
  name :: string
  mvalue :: real
  normalizedScore :: real
  weight :: real
  confidence :: real
  reason :: Reason

record TimeframeAssessment =
  timeframe :: ValuationTimeframe
  overvaluationScore :: real
  riskLevel :: ValuationRiskLevel
  metrics :: "MetricAnalysis list"
  tf_confidence :: real

datatype Direction = bullish | neutral | bearish

text \<open>The union \<^verbatim>\<open>'low' | 'medium' | 'high'\<close>, used for severity and urgency.\<close>

datatype Level = low | medium | high

record ValuationDriver =
  metric :: "string \<times> ValuationTimeframe"
  contribution :: real
  direction :: Direction
  d_reason :: Reason
  severity :: Level

datatype Action = ACCUMULATE | HOLD | REDUCE | EXIT

record Recommendation =
  action :: Action
  r_reason :: string
  urgency :: Level

record Confidence =
  overall :: real
  dataCompleteness :: real
  isEstimated :: bool
  estimationMethod :: "string option"

record ValuationRiskResult =
  r_symbol :: string
  compositeScore :: real
  r_riskLevel :: ValuationRiskLevel
  shortTerm :: TimeframeAssessment
  mediumTerm :: TimeframeAssessment
  longTerm :: TimeframeAssessment
  keyDrivers :: "ValuationDriver list"
  r_confidence :: Confidence
  recommendation :: Recommendation

text \<open>Of \<^verbatim>\<open>SentimentData\<close> the engine reads three fields; all are required numbers.\<close>

record SentimentData =
  socialSentiment :: real
  newsScore :: real
  fundingRate :: real

record ValuationInputData =
  symbol :: string
  mvrv :: "real option"
  nvt :: "real option"
  realizedPrice :: "real option"
  exchangeNetflow :: "real option"
  activeAddresses :: "real option"
  activeAddresses30dAvg :: "real option"
  currentPrice :: real
  ma50 :: "real option"
  ma200 :: "real option"
  ath :: "real option"
  cycleLow :: "real option"
  fearGreed :: "real option"
  kimchiPremium :: "real option"
  sentiment :: "SentimentData option"

section \<open>Valuation risk: configuration tables\<close>

fun TIMEFRAME_WEIGHTS :: "ValuationTimeframe \<Rightarrow> (string \<times> real) list" where
  "TIMEFRAME_WEIGHTS tf_short =
     [(''priceVsMa50'', 0.20), (''exchangeNetflow'', 0.15), (''fearGreed'', 0.15),
      (''kimchiPremium'', 0.10), (''activeAddressRatio'', 0.10),
      (''socialSentiment'', 0.15), (''fundingRate'', 0.15)]"
| "TIMEFRAME_WEIGHTS tf_medium =
     [(''mvrv'', 0.22), (''priceVsMa200'', 0.18), (''nvt'', 0.15),
      (''exchangeNetflow'', 0.12), (''fearGreed'', 0.13),
      (''socialSentiment'', 0.10), (''newsSentiment'', 0.10)]"
| "TIMEFRAME_WEIGHTS tf_long =
     [(''mvrv'', 0.28), (''nvt'', 0.18), (''cyclePosition'', 0.18),
      (''priceVsMa200'', 0.14), (''realizedPriceRatio'', 0.14),
      (''socialSentiment'', 0.08)]"

fun COMPOSITE_TIMEFRAME_WEIGHTS :: "ValuationTimeframe \<Rightarrow> real" where
  "COMPOSITE_TIMEFRAME_WEIGHTS tf_short = 0.20"
| "COMPOSITE_TIMEFRAME_WEIGHTS tf_medium = 0.35"
| "COMPOSITE_TIMEFRAME_WEIGHTS tf_long = 0.45"

record Thresholds =
  mvrvOverbought :: real
  mvrvOversold :: real
  nvtOverbought :: real
  ma200DeviationMax :: real
  betaToBtc :: real

fun CATEGORY_VALUATION_THRESHOLDS :: "AssetCategory \<Rightarrow> Thresholds" where
  "CATEGORY_VALUATION_THRESHOLDS core =
     \<lparr>mvrvOverbought = 3.5, mvrvOversold = 1.0, nvtOverbought = 95,
      ma200DeviationMax = 80, betaToBtc = 1.0\<rparr>"
| "CATEGORY_VALUATION_THRESHOLDS major =
     \<lparr>mvrvOverbought = 3.0, mvrvOversold = 0.8, nvtOverbought = 85,
      ma200DeviationMax = 100, betaToBtc = 1.3\<rparr>"
| "CATEGORY_VALUATION_THRESHOLDS growth =
     \<lparr>mvrvOverbought = 2.5, mvrvOversold = 0.6, nvtOverbought = 75,
      ma200DeviationMax = 120, betaToBtc = 1.6\<rparr>"
| "CATEGORY_VALUATION_THRESHOLDS speculative =
     \<lparr>mvrvOverbought = 2.0, mvrvOversold = 0.5, nvtOverbought = 65,
      ma200DeviationMax = 150, betaToBtc = 2.0\<rparr>"

text \<open>
  \<^verbatim>\<open>ASSET_CHARACTERISTICS\<close> of \<^verbatim>\<open>cashAnalysis.ts\<close>, reduced to the
  \<^verbatim>\<open>category\<close> attribute that \<^verbatim>\<open>getAssetCategory\<close> reads.
\<close>

definition ASSET_CHARACTERISTICS :: "(string \<times> AssetCategory) list" where
  "ASSET_CHARACTERISTICS =
     [(''BTC'', core), (''ETH'', core), (''XRP'', major), (''SOL'', growth),
      (''DOGE'', speculative), (''ADA'', major), (''AVAX'', growth), (''DOT'', growth),
      (''MATIC'', growth), (''LINK'', major)]"

definition getAssetCategory :: "string \<Rightarrow> AssetCategory" where
  "getAssetCategory sy =
     (case map_of ASSET_CHARACTERISTICS sy of
        Some c \<Rightarrow> c
      | None \<Rightarrow> speculative)"

section \<open>Valuation risk: utility functions\<close>

definition getValuationRiskLevel :: "real \<Rightarrow> ValuationRiskLevel" where
  "getValuationRiskLevel score =
     (if score < 0.2 then UNDERVALUED
      else if score < 0.4 then FAIR_VALUE
      else if score < 0.6 then ELEVATED
      else if score < 0.8 then OVERVALUED
      else EXTREME)"

definition clamp01 :: "real \<Rightarrow> real" where
  "clamp01 v = min 1 (max 0 v)"

section \<open>Valuation risk: metric normalizers\<close>

definition analyzeSocialSentimentValuation :: "real \<Rightarrow> MetricAnalysis" where
  "analyzeSocialSentimentValuation s =
     (let normalized = (s + 100) / 200;
          rsn = (if s \<le> -60 then ''social sentiment: extreme fear, accumulation opportunity''
                 else if s \<le> -20 then ''social sentiment: negative mood''
                 else if s \<le> 20 then ''social sentiment: neutral''
                 else if s \<le> 60 then ''social sentiment: positive mood, caution''
                 else ''social sentiment: extreme greed, overvaluation risk'')
      in \<lparr>name = ''socialSentiment'', mvalue = s, normalizedScore = clamp01 normalized,
          weight = 0, confidence = 1.0, reason = (rsn, Some s)\<rparr>)"

definition analyzeNewsSentimentValuation :: "real \<Rightarrow> MetricAnalysis" where
  "analyzeNewsSentimentValuation n =
     (let normalized = (n + 100) / 200;
          rsn = (if n \<le> -50 then ''news sentiment: very negative''
                 else if n \<le> -20 then ''news sentiment: negative''
                 else if n \<le> 20 then ''news sentiment: neutral''
                 else if n \<le> 50 then ''news sentiment: positive''
                 else ''news sentiment: very positive, overheating caution'')
      in \<lparr>name = ''newsSentiment'', mvalue = n, normalizedScore = clamp01 normalized,
          weight = 0, confidence = 0.8, reason = (rsn, Some n)\<rparr>)"

definition analyzeFundingRateValuation :: "real \<Rightarrow> MetricAnalysis" where
  "analyzeFundingRateValuation f =
     (let (normalized, rsn) =
            (if f < -0.05 then (0.1, ''funding rate: extreme short positioning, rebound possible'')
             else if f < 0 then (0.3, ''funding rate: bearish sentiment'')
             else if f < 0.03 then (0.5, ''funding rate: normal range'')
             else if f < 0.08 then (0.75, ''funding rate: longs overheated'')
             else (0.9, ''funding rate: extreme long overheating, correction risk''))
      in \<lparr>name = ''fundingRate'', mvalue = f, normalizedScore = normalized,
          weight = 0, confidence = 1.0, reason = (rsn, Some (f * 100))\<rparr>)"

definition analyzeMVRVValuation :: "real \<Rightarrow> AssetCategory \<Rightarrow> MetricAnalysis" where
  "analyzeMVRVValuation m category =
     (let thresholds = CATEGORY_VALUATION_THRESHOLDS category;
          (normalized, rsn) =
            (if m < mvrvOversold thresholds then
               (0, ''MVRV: extreme undervaluation against realized value'')
             else if m < 1.5 then
               (((m - mvrvOversold thresholds) / (1.5 - mvrvOversold thresholds)) * 0.3,
                ''MVRV: undervalued zone'')
             else if m < 2.5 then
               (0.3 + ((m - 1.5) / 1.0) * 0.3, ''MVRV: fair value zone'')
             else if m < mvrvOverbought thresholds then
               (0.6 + ((m - 2.5) / (mvrvOverbought thresholds - 2.5)) * 0.3,
                ''MVRV: overvaluation caution'')
             else
               (0.9 + min 0.1 (((m - mvrvOverbought thresholds) / 2) * 0.1),
                ''MVRV: extreme overvaluation, cycle top signal''))
      in \<lparr>name = ''mvrv'', mvalue = m, normalizedScore = clamp01 normalized,
          weight = 0, confidence = 1.0, reason = (rsn, Some m)\<rparr>)"

definition analyzeNVTValuation :: "real \<Rightarrow> AssetCategory \<Rightarrow> MetricAnalysis" where
  "analyzeNVTValuation n category =
     (let thresholds = CATEGORY_VALUATION_THRESHOLDS category;
          (normalized, rsn) =
            (if n < 45 then
               ((n / 45) * 0.2, ''NVT: undervalued against network activity'')
             else if n < 65 then
               (0.2 + ((n - 45) / 20) * 0.3, ''NVT: fair value zone'')
             else if n < nvtOverbought thresholds then
               (0.5 + ((n - 65) / (nvtOverbought thresholds - 65)) * 0.35,
                ''NVT: overvaluation caution'')
             else
               (0.85 + min 0.15 (((n - nvtOverbought thresholds) / 30) * 0.15),
                ''NVT: extreme overvaluation against network activity''))
      in \<lparr>name = ''nvt'', mvalue = n, normalizedScore = clamp01 normalized,
          weight = 0, confidence = 1.0, reason = (rsn, Some n)\<rparr>)"

text \<open>\<^verbatim>\<open>maType\<close> is \<^verbatim>\<open>'50'\<close> or \<^verbatim>\<open>'200'\<close>; it only builds the metric's name.\<close>

definition analyzePriceVsMA :: "real \<Rightarrow> real \<Rightarrow> string \<Rightarrow> AssetCategory \<Rightarrow> MetricAnalysis" where
  "analyzePriceVsMA price ma maType category =
     (if ma = 0 then
        \<lparr>name = ''priceVsMa'' @ maType, mvalue = 0, normalizedScore = 0.5,
         weight = 0, confidence = 0, reason = (''no data'', None)\<rparr>
      else
        (let deviation = ((price - ma) / ma) * 100;
             thresholds = CATEGORY_VALUATION_THRESHOLDS category;
             maxDeviation = ma200DeviationMax thresholds;
             (normalized, rsn) =
               (if deviation < -30 then
                  (max 0 ((deviation + 50) / 20) * 0.1, ''MA deviation: extreme undervaluation'')
                else if deviation < -10 then
                  (0.1 + ((deviation + 30) / 20) * 0.2, ''MA deviation: undervalued zone'')
                else if deviation < 30 then
                  (0.3 + ((deviation + 10) / 40) * 0.3, ''MA deviation: fair zone'')
                else if deviation < maxDeviation then
                  (0.6 + ((deviation - 30) / (maxDeviation - 30)) * 0.3,
                   ''MA deviation: overheated zone'')
                else
                  (0.9 + min 0.1 (((deviation - maxDeviation) / 50) * 0.1),
                   ''MA deviation: extreme overheating''))
         in \<lparr>name = ''priceVsMa'' @ maType, mvalue = deviation,
             normalizedScore = clamp01 normalized, weight = 0, confidence = 1.0,
             reason = (rsn, Some deviation)\<rparr>))"

definition analyzeExchangeNetflowValuation :: "real \<Rightarrow> MetricAnalysis" where
  "analyzeExchangeNetflowValuation netflow =
     (let (normalized, rsn) =
            (if netflow < -10000 then
               (0.1, ''large exchange outflow: strong accumulation signal'')
             else if netflow < -5000 then (0.25, ''exchange outflow: accumulation in progress'')
             else if netflow < 5000 then (0.5, ''exchange flows balanced'')
             else if netflow < 10000 then (0.75, ''exchange inflow: selling pressure'')
             else (0.9, ''large exchange inflow: strong selling pressure''))
      in \<lparr>name = ''exchangeNetflow'', mvalue = netflow, normalizedScore = normalized,
          weight = 0, confidence = 1.0, reason = (rsn, Some (netflow / 1000))\<rparr>)"

definition analyzeFearGreedValuation :: "real \<Rightarrow> MetricAnalysis" where
  "analyzeFearGreedValuation v =
     (let normalized = v / 100;
          rsn = (if v \<le> 25 then ''Fear and Greed: extreme fear, possible undervaluation''
                 else if v \<le> 45 then ''Fear and Greed: fear zone''
                 else if v \<le> 55 then ''Fear and Greed: neutral''
                 else if v \<le> 75 then ''Fear and Greed: greed zone, caution''
                 else ''Fear and Greed: extreme greed, overvaluation risk'')
      in \<lparr>name = ''fearGreed'', mvalue = v, normalizedScore = normalized,
          weight = 0, confidence = 1.0, reason = (rsn, Some v)\<rparr>)"

definition analyzeKimchiPremiumValuation :: "real \<Rightarrow> MetricAnalysis" where
  "analyzeKimchiPremiumValuation premium =
     (let (normalized, rsn) =
            (if premium < -2 then (0.1, ''reverse premium: domestic undervaluation'')
             else if premium < 2 then (0.4, ''premium: normal range'')
             else if premium < 5 then (0.6, ''premium: slight overheating'')
             else if premium < 10 then (0.8, ''premium: overheating signal'')
             else (0.95, ''premium: extreme overheating''))
      in \<lparr>name = ''kimchiPremium'', mvalue = premium, normalizedScore = normalized,
          weight = 0, confidence = 1.0, reason = (rsn, Some premium)\<rparr>)"

definition analyzeActiveAddressRatio :: "real \<Rightarrow> real \<Rightarrow> MetricAnalysis" where
  "analyzeActiveAddressRatio current average30d =
     (if average30d = 0 then
        \<lparr>name = ''activeAddressRatio'', mvalue = 0, normalizedScore = 0.5,
         weight = 0, confidence = 0, reason = (''no data'', None)\<rparr>
      else
        (let ratio = (current / average30d) * 100;
             (normalized, rsn) =
               (if ratio < 70 then
                  (0.2, ''active addresses: interest declining, accumulation opportunity'')
                else if ratio < 90 then (0.35, ''active addresses: below average'')
                else if ratio < 110 then (0.5, ''active addresses: normal range'')
                else if ratio < 130 then (0.65, ''active addresses: interest rising'')
                else (0.8, ''active addresses: surge, possible overheating''))
         in \<lparr>name = ''activeAddressRatio'', mvalue = ratio, normalizedScore = normalized,
             weight = 0, confidence = 1.0, reason = (rsn, Some ratio)\<rparr>))"

definition analyzeCyclePosition :: "real \<Rightarrow> real \<Rightarrow> real \<Rightarrow> MetricAnalysis" where
  "analyzeCyclePosition price athv cycleLowv =
     (if athv = 0 \<or> cycleLowv = 0 \<or> athv \<le> cycleLowv then
        \<lparr>name = ''cyclePosition'', mvalue = 0, normalizedScore = 0.5,
         weight = 0, confidence = 0, reason = (''no data'', None)\<rparr>
      else
        (let cycleRange = athv - cycleLowv;
             positionPercent = ((price - cycleLowv) / cycleRange) * 100;
             normalized = clamp01 (positionPercent / 100);
             rsn = (if positionPercent < 20 then ''cycle position: early accumulation zone''
                    else if positionPercent < 40 then ''cycle position: early uptrend''
                    else if positionPercent < 60 then ''cycle position: middle zone''
                    else if positionPercent < 80 then ''cycle position: late uptrend''
                    else ''cycle position: near ATH, caution'')
         in \<lparr>name = ''cyclePosition'', mvalue = positionPercent,
             normalizedScore = normalized, weight = 0, confidence = 0.8,
             reason = (rsn, Some positionPercent)\<rparr>))"

definition analyzeRealizedPriceRatio :: "real \<Rightarrow> real \<Rightarrow> MetricAnalysis" where
  "analyzeRealizedPriceRatio price realized =
     (if realized = 0 then
        \<lparr>name = ''realizedPriceRatio'', mvalue = 0, normalizedScore = 0.5,
         weight = 0, confidence = 0, reason = (''no data'', None)\<rparr>
      else
        (let ratio = price / realized;
             (normalized, rsn) =
               (if ratio < 0.8 then (0.05, ''realized price ratio: extreme undervaluation'')
                else if ratio < 1.0 then (0.15, ''realized price ratio: undervalued'')
                else if ratio < 1.5 then (0.35, ''realized price ratio: fair zone'')
                else if ratio < 2.5 then (0.55, ''realized price ratio: premium'')
                else if ratio < 3.5 then (0.75, ''realized price ratio: overvalued'')
                else (0.9, ''realized price ratio: extreme overvaluation''))
         in \<lparr>name = ''realizedPriceRatio'', mvalue = ratio, normalizedScore = normalized,
             weight = 0, confidence = 1.0, reason = (rsn, Some (ratio * 100))\<rparr>))"

section \<open>Valuation risk: timeframe aggregation\<close>

text \<open>
  The running totals of \<^verbatim>\<open>calculateTimeframeAssessment\<close>: the \<^verbatim>\<open>metrics\<close> array
  and the three accumulators.
\<close>

record Acc =
  acc_metrics :: "MetricAnalysis list"
  totalWeight :: real
  weightedScore :: real
  weightedConfidence :: real

definition initAcc :: Acc where
  "initAcc = \<lparr>acc_metrics = [], totalWeight = 0, weightedScore = 0, weightedConfidence = 0\<rparr>"

text \<open>
  The body shared by the thirteen guarded blocks: set the weight, push the analysis,
  add to the three totals.
\<close>

definition addMetric :: "real \<Rightarrow> MetricAnalysis \<Rightarrow> Acc \<Rightarrow> Acc" where
  "addMetric w a s =
     (let analysis = a\<lparr>weight := w\<rparr>
      in \<lparr>acc_metrics = acc_metrics s @ [analysis],
          totalWeight = totalWeight s + weight analysis,
          weightedScore =
            weightedScore s + normalizedScore analysis * weight analysis * confidence analysis,
          weightedConfidence = weightedConfidence s + weight analysis * confidence analysis\<rparr>)"

text \<open>
  One block \<^verbatim>\<open>if (weights.k && <input present>) { ... }\<close>: the weight must be
  truthy and the input side must have produced an analysis.
\<close>

definition block :: "real option \<Rightarrow> MetricAnalysis option \<Rightarrow> Acc \<Rightarrow> Acc" where
  "block w a s =
     (if truthy w then
        (case (w, a) of
           (Some wv, Some av) \<Rightarrow> addMetric wv av s
         | _ \<Rightarrow> s)
      else s)"

text \<open>The input test \<^verbatim>\<open>input.x !== undefined\<close>, then the normalizer.\<close>

definition ifDefined :: "'a option \<Rightarrow> ('a \<Rightarrow> 'b) \<Rightarrow> 'b option" where
  "ifDefined x f = (case x of None \<Rightarrow> None | Some v \<Rightarrow> Some (f v))"

text \<open>The input test \<^verbatim>\<open>input.x\<close> (truthiness: defined and not zero), then the normalizer.\<close>

definition ifTruthy :: "real option \<Rightarrow> (real \<Rightarrow> 'b) \<Rightarrow> 'b option" where
  "ifTruthy x f = (case x of None \<Rightarrow> None | Some v \<Rightarrow> if v \<noteq> 0 then Some (f v) else None)"

text \<open>
  The input side of the thirteen blocks, in source order, each under the key of the
  weight table that its block tests.
\<close>

definition candidates ::
    "ValuationInputData \<Rightarrow> AssetCategory \<Rightarrow> (string \<times> MetricAnalysis option) list" where
  "candidates input category =
     [(''mvrv'', ifDefined (mvrv input) (\<lambda>v. analyzeMVRVValuation v category)),
      (''nvt'', ifDefined (nvt input) (\<lambda>v. analyzeNVTValuation v category)),
      (''priceVsMa50'',
         ifTruthy (ma50 input) (\<lambda>m. analyzePriceVsMA (currentPrice input) m ''50'' category)),
      (''priceVsMa200'',
         ifTruthy (ma200 input) (\<lambda>m. analyzePriceVsMA (currentPrice input) m ''200'' category)),
      (''exchangeNetflow'',
         ifDefined (exchangeNetflow input) analyzeExchangeNetflowValuation),
      (''fearGreed'', ifDefined (fearGreed input) analyzeFearGreedValuation),
      (''kimchiPremium'', ifDefined (kimchiPremium input) analyzeKimchiPremiumValuation),
      (''activeAddressRatio'',
         (case ifTruthy (activeAddresses input) (\<lambda>c. c) of
            None \<Rightarrow> None
          | Some c \<Rightarrow>
              ifTruthy (activeAddresses30dAvg input) (\<lambda>a. analyzeActiveAddressRatio c a))),
      (''cyclePosition'',
         (case ifTruthy (ath input) (\<lambda>a. a) of
            None \<Rightarrow> None
          | Some a \<Rightarrow>
              ifTruthy (cycleLow input) (\<lambda>l. analyzeCyclePosition (currentPrice input) a l))),
      (''realizedPriceRatio'',
         ifTruthy (realizedPrice input)
           (\<lambda>r. analyzeRealizedPriceRatio (currentPrice input) r)),
      (''socialSentiment'',
         ifDefined (sentiment input)
           (\<lambda>sd. analyzeSocialSentimentValuation (socialSentiment sd))),
      (''newsSentiment'',
         ifDefined (sentiment input) (\<lambda>sd. analyzeNewsSentimentValuation (newsScore sd))),
      (''fundingRate'',
         ifDefined (sentiment input) (\<lambda>sd. analyzeFundingRateValuation (fundingRate sd)))]"

text \<open>
  The thirteen blocks run in order over the totals; \<^verbatim>\<open>weights\<close> is the weight table
  of the timeframe, looked up by key.
\<close>

definition runBlocks ::
    "(string \<rightharpoonup> real) \<Rightarrow> (string \<times> MetricAnalysis option) list \<Rightarrow> Acc \<Rightarrow> Acc" where
  "runBlocks weights cs s = fold (\<lambda>(key, a). block (weights key) a) cs s"

definition calculateTimeframeAssessment ::
    "ValuationTimeframe \<Rightarrow> ValuationInputData \<Rightarrow> AssetCategory \<Rightarrow> TimeframeAssessment" where
  "calculateTimeframeAssessment tf input category =
     (let weights = map_of (TIMEFRAME_WEIGHTS tf);
          s = runBlocks weights (candidates input category) initAcc;
          score = (if totalWeight s > 0 then weightedScore s / totalWeight s else 0.5);
          conf = (if totalWeight s > 0 then weightedConfidence s / totalWeight s else 0)
      in \<lparr>timeframe = tf, overvaluationScore = score,
          riskLevel = getValuationRiskLevel score, metrics = acc_metrics s,
          tf_confidence = conf\<rparr>)"

section \<open>Valuation risk: key drivers and recommendation\<close>

definition contributionOf :: "MetricAnalysis \<Rightarrow> real" where
  "contributionOf m = \<bar>normalizedScore m - 0.5\<bar> * weight m * confidence m"

text \<open>
  The last \<^verbatim>\<open>map\<close> of \<^verbatim>\<open>extractKeyDrivers\<close>, applied to a metric, the timeframe
  it was pooled from and its contribution. The source labels the driver with the Korean
  metric name and timeframe word; the model keeps the pair of \<^verbatim>\<open>name\<close> and timeframe.
\<close>

definition toDriver :: "MetricAnalysis \<times> ValuationTimeframe \<times> real \<Rightarrow> ValuationDriver" where
  "toDriver x =
     (case x of (m, t, c) \<Rightarrow>
        \<lparr>metric = (name m, t), contribution = c,
         direction = (if normalizedScore m < 0.4 then bullish
                      else if normalizedScore m > 0.6 then bearish else neutral),
         d_reason = reason m,
         severity = (if c > 0.15 then high else if c > 0.08 then medium else low)\<rparr>)"

text \<open>
  \<^verbatim>\<open>Array.prototype.sort\<close> with the comparator \<^verbatim>\<open>b.contribution - a.contribution\<close>
  is a stable sort into descending order of contribution; \<^const>\<open>sort_key\<close> on the
  negated contribution is the stable sort with that order.
\<close>

definition extractKeyDrivers ::
    "TimeframeAssessment \<Rightarrow> TimeframeAssessment \<Rightarrow> TimeframeAssessment \<Rightarrow> ValuationDriver list" where
  "extractKeyDrivers shortT mediumT longT =
     (let allMetrics =
            map (\<lambda>m. (m, tf_short)) (metrics shortT) @
            map (\<lambda>m. (m, tf_medium)) (metrics mediumT) @
            map (\<lambda>m. (m, tf_long)) (metrics longT);
          withContribution = map (\<lambda>(m, t). (m, t, contributionOf m)) allMetrics;
          sorted = sort_key (\<lambda>(m, t, c). - c) withContribution;
          top = take 5 sorted
      in map toDriver top)"

definition generateRecommendation :: "real \<Rightarrow> ValuationDriver list \<Rightarrow> Recommendation" where
  "generateRecommendation score drivers =
     (let highSeverityBearish =
            length (filter (\<lambda>d. direction d = bearish \<and> severity d = high) drivers)
      in if score < 0.25 then
           \<lparr>action = ACCUMULATE, r_reason = ''undervalued zone: active buying opportunity'',
            urgency = (if score < 0.15 then high else medium)\<rparr>
         else if score < 0.45 then
           \<lparr>action = ACCUMULATE, r_reason = ''below fair value: consider gradual buying'',
            urgency = low\<rparr>
         else if score < 0.6 then
           \<lparr>action = HOLD, r_reason = ''fair value zone: keep current position'',
            urgency = low\<rparr>
         else if score < 0.75 then
           \<lparr>action = REDUCE, r_reason = ''overvalued zone: partial profit taking advised'',
            urgency = (if highSeverityBearish \<ge> 2 then high else medium)\<rparr>
         else
           \<lparr>action = EXIT, r_reason = ''extreme overvaluation: closing most positions advised'',
            urgency = high\<rparr>)"

section \<open>Valuation risk: main calculation\<close>

definition calculateValuationRisk :: "ValuationInputData \<Rightarrow> ValuationRiskResult" where
  "calculateValuationRisk input =
     (let category = getAssetCategory (symbol input);
          shortT = calculateTimeframeAssessment tf_short input category;
          mediumT = calculateTimeframeAssessment tf_medium input category;
          longT = calculateTimeframeAssessment tf_long input category;
          composite =
            overvaluationScore shortT * COMPOSITE_TIMEFRAME_WEIGHTS tf_short +
            overvaluationScore mediumT * COMPOSITE_TIMEFRAME_WEIGHTS tf_medium +
            overvaluationScore longT * COMPOSITE_TIMEFRAME_WEIGHTS tf_long;
          drivers = extractKeyDrivers shortT mediumT longT;
          allMetrics = metrics shortT @ metrics mediumT @ metrics longT;
          completeness =
            (if length allMetrics > 0 then
               real (length (filter (\<lambda>m. confidence m > 0) allMetrics)) /
               real (length allMetrics)
             else 0);
          overallConfidence =
            tf_confidence shortT * COMPOSITE_TIMEFRAME_WEIGHTS tf_short +
            tf_confidence mediumT * COMPOSITE_TIMEFRAME_WEIGHTS tf_medium +
            tf_confidence longT * COMPOSITE_TIMEFRAME_WEIGHTS tf_long
      in \<lparr>r_symbol = symbol input, compositeScore = composite,
          r_riskLevel = getValuationRiskLevel composite,
          shortTerm = shortT, mediumTerm = mediumT, longTerm = longT,
          keyDrivers = drivers,
          r_confidence =
            \<lparr>overall = overallConfidence, dataCompleteness = completeness,
             isEstimated = (symbol input \<noteq> ''BTC''),
             estimationMethod =
               (if symbol input \<noteq> ''BTC'' then Some ''estimated from BTC correlation''
                else None)\<rparr>,
          recommendation = generateRecommendation composite drivers\<rparr>)"

section \<open>Cash allocation: types and weights\<close>

datatype RiskLevel = AGGRESSIVE | GROWTH | BALANCED | CAUTIOUS | DEFENSIVE | PRESERVATION

datatype ActionType = REDUCE_CASH | NEUTRAL | INCREASE_CASH | MAX_CASH

text \<open>
  \<^verbatim>\<open>IndicatorAnalysis\<close>; its \<^verbatim>\<open>reason\<close> is a constant Korean text, kept as an
  ASCII gloss.
\<close>

record IndicatorAnalysis =
  score :: real
  ia_action :: ActionType
  ia_reason :: string
  ia_value :: real

record IndicatorInputs =
  i_fearGreed :: "real option"
  i_mvrv :: "real option"
  i_kimchiPremium :: "real option"
  exchangeFlow :: "real option"
  i_currentPrice :: "real option"
  i_ma200 :: "real option"
  vix :: "real option"
  i_nvt :: "real option"
  i_activeAddresses :: "real option"
  i_activeAddresses30dAvg :: "real option"

record BreakdownItem =
  indicator :: string
  b_score :: real
  b_weight :: real
  b_contribution :: real
  b_action :: ActionType
  b_reason :: string

record CashRecommendation =
  c_score :: real
  recommendedCash :: real
  c_riskLevel :: RiskLevel
  strategy :: string
  analyses :: "(string \<times> IndicatorAnalysis) list"
  breakdown :: "BreakdownItem list"

text \<open>The weight table, in the order of its keys.\<close>

definition WEIGHTS :: "(string \<times> real) list" where
  "WEIGHTS =
     [(''fearGreed'', 0.20), (''mvrv'', 0.15), (''kimchiPremium'', 0.10),
      (''exchangeFlow'', 0.15), (''dxy'', 0.10), (''marketTrend'', 0.15),
      (''volatility'', 0.15)]"

section \<open>Cash allocation: indicator scorers\<close>

definition analyzeFearGreed :: "real \<Rightarrow> IndicatorAnalysis" where
  "analyzeFearGreed v =
     (if v \<le> 25 then
        \<lparr>score = 20, ia_action = REDUCE_CASH,
         ia_reason = ''extreme fear: buying opportunity'', ia_value = v\<rparr>
      else if v \<le> 45 then
        \<lparr>score = 40, ia_action = NEUTRAL,
         ia_reason = ''fear zone: consider gradual buying'', ia_value = v\<rparr>
      else if v \<le> 55 then
        \<lparr>score = 50, ia_action = NEUTRAL,
         ia_reason = ''neutral zone: keep cash'', ia_value = v\<rparr>
      else if v \<le> 75 then
        \<lparr>score = 70, ia_action = INCREASE_CASH,
         ia_reason = ''greed zone: consider taking profit'', ia_value = v\<rparr>
      else
        \<lparr>score = 90, ia_action = MAX_CASH,
         ia_reason = ''extreme greed: risk management needed'', ia_value = v\<rparr>)"

definition analyzeMVRV :: "real \<Rightarrow> IndicatorAnalysis" where
  "analyzeMVRV v =
     (if v < 1 then
        \<lparr>score = 10, ia_action = REDUCE_CASH,
         ia_reason = ''MVRV below 1: historical bottom'', ia_value = v\<rparr>
      else if v < 2 then
        \<lparr>score = 30, ia_action = REDUCE_CASH,
         ia_reason = ''MVRV undervalued zone'', ia_value = v\<rparr>
      else if v < 3 then
        \<lparr>score = 50, ia_action = NEUTRAL,
         ia_reason = ''MVRV fair zone'', ia_value = v\<rparr>
      else if v < 4 then
        \<lparr>score = 75, ia_action = INCREASE_CASH,
         ia_reason = ''MVRV overvalued: consider taking profit'', ia_value = v\<rparr>
      else
        \<lparr>score = 95, ia_action = MAX_CASH,
         ia_reason = ''MVRV extremely overvalued: cycle top signal'', ia_value = v\<rparr>)"

definition analyzeKimchiPremium :: "real \<Rightarrow> IndicatorAnalysis" where
  "analyzeKimchiPremium v =
     (if v < -2 then
        \<lparr>score = 20, ia_action = REDUCE_CASH,
         ia_reason = ''reverse premium: domestic buying opportunity'', ia_value = v\<rparr>
      else if v < 2 then
        \<lparr>score = 50, ia_action = NEUTRAL,
         ia_reason = ''premium in normal range'', ia_value = v\<rparr>
      else if v < 5 then
        \<lparr>score = 60, ia_action = NEUTRAL,
         ia_reason = ''slight premium'', ia_value = v\<rparr>
      else if v < 10 then
        \<lparr>score = 80, ia_action = INCREASE_CASH,
         ia_reason = ''overheating signal: caution'', ia_value = v\<rparr>
      else
        \<lparr>score = 95, ia_action = MAX_CASH,
         ia_reason = ''extreme overheating: consider selling domestically'', ia_value = v\<rparr>)"

definition analyzeExchangeFlow :: "real \<Rightarrow> IndicatorAnalysis" where
  "analyzeExchangeFlow netFlow =
     (if netFlow < -10000 then
        \<lparr>score = 20, ia_action = REDUCE_CASH,
         ia_reason = ''large exchange outflow: strong accumulation'', ia_value = netFlow\<rparr>
      else if netFlow < -5000 then
        \<lparr>score = 35, ia_action = REDUCE_CASH,
         ia_reason = ''exchange outflow: accumulation signal'', ia_value = netFlow\<rparr>
      else if netFlow < 5000 then
        \<lparr>score = 50, ia_action = NEUTRAL,
         ia_reason = ''flows balanced'', ia_value = netFlow\<rparr>
      else if netFlow < 10000 then
        \<lparr>score = 70, ia_action = INCREASE_CASH,
         ia_reason = ''exchange inflow: selling pressure'', ia_value = netFlow\<rparr>
      else
        \<lparr>score = 90, ia_action = MAX_CASH,
         ia_reason = ''large exchange inflow: strong selling pressure'', ia_value = netFlow\<rparr>)"

definition analyzeMarketTrend :: "real \<Rightarrow> real \<Rightarrow> IndicatorAnalysis" where
  "analyzeMarketTrend price ma =
     (if ma = 0 then
        \<lparr>score = 50, ia_action = NEUTRAL, ia_reason = ''no data'', ia_value = 0\<rparr>
      else
        (let deviation = ((price - ma) / ma) * 100
         in if deviation < -30 then
              \<lparr>score = 15, ia_action = REDUCE_CASH,
               ia_reason = ''30 percent or more below 200MA: extreme undervaluation'',
               ia_value = deviation\<rparr>
            else if deviation < -10 then
              \<lparr>score = 30, ia_action = REDUCE_CASH,
               ia_reason = ''below 200MA: undervalued zone'', ia_value = deviation\<rparr>
            else if deviation < 30 then
              \<lparr>score = 50, ia_action = NEUTRAL,
               ia_reason = ''near 200MA: fair zone'', ia_value = deviation\<rparr>
            else if deviation < 60 then
              \<lparr>score = 70, ia_action = INCREASE_CASH,
               ia_reason = ''overheated against 200MA'', ia_value = deviation\<rparr>
            else
              \<lparr>score = 90, ia_action = MAX_CASH,
               ia_reason = ''extremely overheated against 200MA'', ia_value = deviation\<rparr>))"

definition analyzeVolatility :: "real \<Rightarrow> IndicatorAnalysis" where
  "analyzeVolatility v =
     (if v < 15 then
        \<lparr>score = 40, ia_action = NEUTRAL,
         ia_reason = ''low volatility: stable'', ia_value = v\<rparr>
      else if v < 20 then
        \<lparr>score = 50, ia_action = NEUTRAL,
         ia_reason = ''normal volatility'', ia_value = v\<rparr>
      else if v < 30 then
        \<lparr>score = 65, ia_action = INCREASE_CASH,
         ia_reason = ''high volatility: caution'', ia_value = v\<rparr>
      else if v < 40 then
        \<lparr>score = 80, ia_action = INCREASE_CASH,
         ia_reason = ''very high volatility'', ia_value = v\<rparr>
      else
        \<lparr>score = 90, ia_action = MAX_CASH,
         ia_reason = ''extreme volatility: risk management first'', ia_value = v\<rparr>)"

definition analyzeNVT :: "real \<Rightarrow> IndicatorAnalysis" where
  "analyzeNVT n =
     (if n < 45 then
        \<lparr>score = 25, ia_action = REDUCE_CASH,
         ia_reason = ''NVT undervalued: cheap against network activity'', ia_value = n\<rparr>
      else if n < 65 then
        \<lparr>score = 50, ia_action = NEUTRAL,
         ia_reason = ''NVT fair zone'', ia_value = n\<rparr>
      else if n < 90 then
        \<lparr>score = 70, ia_action = INCREASE_CASH,
         ia_reason = ''NVT overvalued: caution'', ia_value = n\<rparr>
      else
        \<lparr>score = 85, ia_action = MAX_CASH,
         ia_reason = ''NVT overheated: expensive against network activity'', ia_value = n\<rparr>)"

section \<open>Cash allocation: the calculator\<close>

text \<open>
  The \<^verbatim>\<open>analyses\<close> object, as the list of its entries in insertion order: six
  entries built from the inputs with \<^verbatim>\<open>??\<close> defaults, then \<^verbatim>\<open>nvt\<close> when
  \<^verbatim>\<open>indicators.nvt !== undefined\<close>.
\<close>

definition buildAnalyses :: "IndicatorInputs \<Rightarrow> (string \<times> IndicatorAnalysis) list" where
  "buildAnalyses indicators =
     [(''fearGreed'', analyzeFearGreed (nullish (i_fearGreed indicators) 50)),
      (''mvrv'', analyzeMVRV (nullish (i_mvrv indicators) 2)),
      (''kimchiPremium'', analyzeKimchiPremium (nullish (i_kimchiPremium indicators) 0)),
      (''exchangeFlow'', analyzeExchangeFlow (nullish (exchangeFlow indicators) 0)),
      (''marketTrend'',
         analyzeMarketTrend
           (nullish (i_currentPrice indicators) 0)
           (nullish (i_ma200 indicators) (nullish (i_currentPrice indicators) 0))),
      (''volatility'', analyzeVolatility (nullish (vix indicators) 20))] @
     (case i_nvt indicators of
        None \<Rightarrow> []
      | Some n \<Rightarrow> [(''nvt'', analyzeNVT n)])"

text \<open>
  The loop \<^verbatim>\<open>Object.keys(WEIGHTS).forEach\<close>: for each key of the weight table that has
  an analysis, add \<^verbatim>\<open>score * WEIGHTS[key]\<close> and \<^verbatim>\<open>WEIGHTS[key]\<close>. The result is
  the pair \<^verbatim>\<open>(totalScore, totalWeight)\<close>.
\<close>

definition cashTotals :: "(string \<times> IndicatorAnalysis) list \<Rightarrow> real \<times> real" where
  "cashTotals as =
     fold (\<lambda>(key, w) (totalScore, totalWt).
             (case map_of as key of
                Some a \<Rightarrow> (totalScore + score a * w, totalWt + w)
              | None \<Rightarrow> (totalScore, totalWt)))
          WEIGHTS (0, 0)"

definition finalScoreOf :: "(string \<times> IndicatorAnalysis) list \<Rightarrow> real" where
  "finalScoreOf as =
     (case cashTotals as of
        (totalScore, totalWt) \<Rightarrow> if totalWt > 0 then totalScore / totalWt else 50)"

text \<open>\<^verbatim>\<open>Math.round\<close>: the nearest integer, halves rounded up.\<close>

definition mathRound :: "real \<Rightarrow> real" where
  "mathRound x = of_int \<lfloor>x + 1 / 2\<rfloor>"

text \<open>\<^verbatim>\<open>WEIGHTS[key] || 0\<close>: a missing or zero weight is \<^verbatim>\<open>0\<close>.\<close>

definition weightOrZero :: "string \<Rightarrow> real" where
  "weightOrZero key = (if truthy (map_of WEIGHTS key) then nullish (map_of WEIGHTS key) 0 else 0)"

definition breakdownOf :: "(string \<times> IndicatorAnalysis) list \<Rightarrow> BreakdownItem list" where
  "breakdownOf as =
     map (\<lambda>(key, v).
            \<lparr>indicator = key, b_score = score v, b_weight = weightOrZero key,
             b_contribution = score v * weightOrZero key,
             b_action = ia_action v, b_reason = ia_reason v\<rparr>) as"

definition calculateRecommendedCashAllocation :: "IndicatorInputs \<Rightarrow> CashRecommendation" where
  "calculateRecommendedCashAllocation indicators =
     (let as = buildAnalyses indicators;
          finalScore = finalScoreOf as;
          (cash, level, strat) =
            (if finalScore \<le> 25 then
               (10, AGGRESSIVE, ''aggressive: minimise cash, buy actively'')
             else if finalScore \<le> 40 then
               (20, GROWTH, ''growth: buy gradually, seize opportunities'')
             else if finalScore \<le> 55 then
               (25, BALANCED, ''balanced: keep current position'')
             else if finalScore \<le> 70 then
               (35, CAUTIOUS, ''cautious: consider taking profit, secure cash'')
             else if finalScore \<le> 85 then
               (45, DEFENSIVE, ''defensive: reduce risk, raise cash share'')
             else
               (55, PRESERVATION, ''preservation: maximum cash share, watch the market''))
      in \<lparr>c_score = mathRound finalScore, recommendedCash = cash, c_riskLevel = level,
          strategy = strat, analyses = as, breakdown = breakdownOf as\<rparr>)"

section \<open>Inputs used in the scenarios below\<close>

text \<open>A valuation input that carries only \<^verbatim>\<open>symbol\<close> and \<^verbatim>\<open>currentPrice\<close>.\<close>

definition bareInput :: "string \<Rightarrow> real \<Rightarrow> ValuationInputData" where
  "bareInput sy p =
     \<lparr>symbol = sy, mvrv = None, nvt = None, realizedPrice = None,
      exchangeNetflow = None, activeAddresses = None, activeAddresses30dAvg = None,
      currentPrice = p, ma50 = None, ma200 = None, ath = None, cycleLow = None,
      fearGreed = None, kimchiPremium = None, sentiment = None\<rparr>"

text \<open>A valuation input whose all-time high lies below its cycle low, both non-zero.\<close>

definition invertedCycle :: ValuationInputData where
  "invertedCycle = (bareInput ''BTC'' 1)\<lparr>ath := Some 1, cycleLow := Some 2\<rparr>"

text \<open>
  The cash scenario \<^verbatim>\<open>fearGreed=90, mvrv=4.5, kimchiPremium=12, exchangeFlow=15000,
  vix=45\<close>, every other indicator absent.
\<close>

definition greedScenario :: IndicatorInputs where
  "greedScenario =
     \<lparr>i_fearGreed = Some 90, i_mvrv = Some 4.5, i_kimchiPremium = Some 12,
      exchangeFlow = Some 15000, i_currentPrice = None, i_ma200 = None, vix = Some 45,
      i_nvt = None, i_activeAddresses = None, i_activeAddresses30dAvg = None\<rparr>"

text \<open>A cash input in which only \<^verbatim>\<open>fearGreed\<close> is present.\<close>

definition fearGreedOnly :: IndicatorInputs where
  "fearGreedOnly =
     \<lparr>i_fearGreed = Some 90, i_mvrv = None, i_kimchiPremium = None,
      exchangeFlow = None, i_currentPrice = None, i_ma200 = None, vix = None,
      i_nvt = None, i_activeAddresses = None, i_activeAddresses30dAvg = None\<rparr>"

text \<open>
  For comparison only, and not what the source does: the \<^verbatim>\<open>analyses\<close> object as it
  would be if an absent \<^verbatim>\<open>fearGreed\<close>, \<^verbatim>\<open>mvrv\<close>, \<^verbatim>\<open>kimchiPremium\<close>,
  \<^verbatim>\<open>exchangeFlow\<close> or \<^verbatim>\<open>vix\<close> were skipped instead of defaulted. The market
  trend and \<^verbatim>\<open>nvt\<close> entries are those of \<^const>\<open>buildAnalyses\<close>.
\<close>

definition buildAnalysesSkipping :: "IndicatorInputs \<Rightarrow> (string \<times> IndicatorAnalysis) list" where
  "buildAnalysesSkipping indicators =
     (case i_fearGreed indicators of
        None \<Rightarrow> [] | Some v \<Rightarrow> [(''fearGreed'', analyzeFearGreed v)]) @
     (case i_mvrv indicators of
        None \<Rightarrow> [] | Some v \<Rightarrow> [(''mvrv'', analyzeMVRV v)]) @
     (case i_kimchiPremium indicators of
        None \<Rightarrow> [] | Some v \<Rightarrow> [(''kimchiPremium'', analyzeKimchiPremium v)]) @
     (case exchangeFlow indicators of
        None \<Rightarrow> [] | Some v \<Rightarrow> [(''exchangeFlow'', analyzeExchangeFlow v)]) @
     [(''marketTrend'',
         analyzeMarketTrend
           (nullish (i_currentPrice indicators) 0)
           (nullish (i_ma200 indicators) (nullish (i_currentPrice indicators) 0)))] @
     (case vix indicators of
        None \<Rightarrow> [] | Some v \<Rightarrow> [(''volatility'', analyzeVolatility v)]) @
     (case i_nvt indicators of
        None \<Rightarrow> [] | Some n \<Rightarrow> [(''nvt'', analyzeNVT n)])"

text \<open>A driver that is bearish with high severity.\<close>

definition bearishHigh :: ValuationDriver where
  "bearishHigh =
     \<lparr>metric = (''mvrv'', tf_long), contribution = 0.2, direction = bearish,
      d_reason = (''MVRV: extreme overvaluation, cycle top signal'', Some 4), severity = high\<rparr>"

text \<open>
  Three assessments pooling six metrics of confidence 1, given by name, normalized score
  and weight. Their contributions are 0.06 and 0 (short), 0.088 and 0.03 (medium), 0.14
  and 0.03 (long).
\<close>

definition sampleMetric :: "string \<Rightarrow> real \<Rightarrow> real \<Rightarrow> MetricAnalysis" where
  "sampleMetric n ns w =
     \<lparr>name = n, mvalue = 0, normalizedScore = ns, weight = w, confidence = 1,
      reason = (n, None)\<rparr>"

definition sampleAssessment :: "ValuationTimeframe \<Rightarrow> MetricAnalysis list \<Rightarrow> TimeframeAssessment" where
  "sampleAssessment tf ms =
     \<lparr>timeframe = tf, overvaluationScore = 0.5, riskLevel = ELEVATED, metrics = ms,
      tf_confidence = 1\<rparr>"

definition sampleShort :: TimeframeAssessment where
  "sampleShort = sampleAssessment tf_short
     [sampleMetric ''fearGreed'' 0.9 0.15, sampleMetric ''kimchiPremium'' 0.5 0.10]"

definition sampleMedium :: TimeframeAssessment where
  "sampleMedium = sampleAssessment tf_medium
     [sampleMetric ''mvrv'' 0.1 0.22, sampleMetric ''nvt'' 0.7 0.15]"

definition sampleLong :: TimeframeAssessment where
  "sampleLong = sampleAssessment tf_long
     [sampleMetric ''mvrv'' 1 0.28, sampleMetric ''socialSentiment'' 0.125 0.08]"

section \<open>Cash allocation: properties\<close>

lemmas scorer_defs =
  analyzeFearGreed_def analyzeMVRV_def analyzeKimchiPremium_def analyzeExchangeFlow_def
  analyzeMarketTrend_def analyzeVolatility_def analyzeNVT_def

text \<open>
  The loop over the keys of \<^const>\<open>WEIGHTS\<close> finds the six entries that are always
  built; \<^verbatim>\<open>dxy\<close> has a weight and no analysis, \<^verbatim>\<open>nvt\<close> an analysis and no weight.
\<close>

lemma cashTotals_six:
  assumes "rest = [] \<or> (\<exists>a. rest = [(''nvt'', a)])"
  shows "cashTotals ([(''fearGreed'', a1), (''mvrv'', a2), (''kimchiPremium'', a3),
            (''exchangeFlow'', a4), (''marketTrend'', a5), (''volatility'', a6)] @ rest) =
         (score a1 * 0.20 + score a2 * 0.15 + score a3 * 0.10 + score a4 * 0.15 +
          score a5 * 0.15 + score a6 * 0.15, 0.9)"
  using assms by (auto simp add: cashTotals_def WEIGHTS_def)

lemma cashTotals_buildAnalyses:
  "cashTotals (buildAnalyses i) =
     (score (analyzeFearGreed (nullish (i_fearGreed i) 50)) * 0.20 +
      score (analyzeMVRV (nullish (i_mvrv i) 2)) * 0.15 +
      score (analyzeKimchiPremium (nullish (i_kimchiPremium i) 0)) * 0.10 +
      score (analyzeExchangeFlow (nullish (exchangeFlow i) 0)) * 0.15 +
      score (analyzeMarketTrend (nullish (i_currentPrice i) 0)
               (nullish (i_ma200 i) (nullish (i_currentPrice i) 0))) * 0.15 +
      score (analyzeVolatility (nullish (vix i) 20)) * 0.15, 0.9)"
  unfolding buildAnalyses_def by (rule cashTotals_six) (simp split: option.split)

lemma finalScore_nvt:
  "finalScoreOf (buildAnalyses (i\<lparr>i_nvt := x\<rparr>)) = finalScoreOf (buildAnalyses i)"
  by (simp add: finalScoreOf_def cashTotals_buildAnalyses)

lemma greedScenario_totals: "cashTotals (buildAnalyses greedScenario) = (76.25, 0.9)"
  by (simp add: cashTotals_buildAnalyses greedScenario_def nullish_def scorer_defs)

lemma greedScenario_finalScore: "finalScoreOf (buildAnalyses greedScenario) = 3050 / 36"
  by (simp add: finalScoreOf_def greedScenario_totals)

lemma greedScenario_result:
  "c_riskLevel (calculateRecommendedCashAllocation greedScenario) = DEFENSIVE \<and>
   recommendedCash (calculateRecommendedCashAllocation greedScenario) = 45 \<and>
   c_score (calculateRecommendedCashAllocation greedScenario) = 85"
  by (simp add: calculateRecommendedCashAllocation_def greedScenario_finalScore Let_def
      mathRound_def)

text \<open>
  Claim C1, as amended. For the input \<^verbatim>\<open>fearGreed=90, mvrv=4.5, kimchiPremium=12,
  exchangeFlow=15000, vix=45\<close> with every other indicator absent,
  \<^verbatim>\<open>calculateRecommendedCashAllocation\<close> returns risk level DEFENSIVE with
  recommended cash 45: the weighted total is 76.25 over a total weight of 0.9, the final
  score is 3050/36 (about 84.72, rounded to 85), and that is not above 85. The market
  trend has no data and enters as the neutral 50 with its weight 0.15.
\<close>

theorem greed_scenario_is_defensive:
  "cashTotals (buildAnalyses greedScenario) = (76.25, 0.9) \<and>
   finalScoreOf (buildAnalyses greedScenario) = 3050 / 36 \<and>
   c_riskLevel (calculateRecommendedCashAllocation greedScenario) = DEFENSIVE \<and>
   recommendedCash (calculateRecommendedCashAllocation greedScenario) = 45 \<and>
   c_score (calculateRecommendedCashAllocation greedScenario) = 85"
  using greedScenario_totals greedScenario_finalScore greedScenario_result by simp

text \<open>
  Claim C1 as stated (risk level PRESERVATION with recommended cash 55) fails at its
  own input.
\<close>

theorem greed_scenario_not_preservation:
  "\<not> (c_riskLevel (calculateRecommendedCashAllocation greedScenario) = PRESERVATION \<and>
      recommendedCash (calculateRecommendedCashAllocation greedScenario) = 55)"
  using greedScenario_result by simp

text \<open>
  Claim C2, as amended. A present \<^verbatim>\<open>nvt\<close> is analysed and appended to the
  analyses and to the breakdown, there with weight 0 and contribution 0; the weight
  table has no \<^verbatim>\<open>nvt\<close> key, so the analysis never enters the weighted average. For
  every input and every value of \<^verbatim>\<open>nvt\<close>, present or absent, the final score, the
  rounded score, the recommended cash, the risk level and the strategy are the same.
\<close>

theorem nvt_ignored_by_weighted_average:
  "finalScoreOf (buildAnalyses (i\<lparr>i_nvt := x\<rparr>)) = finalScoreOf (buildAnalyses i) \<and>
   c_score (calculateRecommendedCashAllocation (i\<lparr>i_nvt := x\<rparr>)) =
     c_score (calculateRecommendedCashAllocation i) \<and>
   recommendedCash (calculateRecommendedCashAllocation (i\<lparr>i_nvt := x\<rparr>)) =
     recommendedCash (calculateRecommendedCashAllocation i) \<and>
   c_riskLevel (calculateRecommendedCashAllocation (i\<lparr>i_nvt := x\<rparr>)) =
     c_riskLevel (calculateRecommendedCashAllocation i) \<and>
   strategy (calculateRecommendedCashAllocation (i\<lparr>i_nvt := x\<rparr>)) =
     strategy (calculateRecommendedCashAllocation i) \<and>
   analyses (calculateRecommendedCashAllocation (i\<lparr>i_nvt := Some n\<rparr>)) =
     analyses (calculateRecommendedCashAllocation (i\<lparr>i_nvt := None\<rparr>)) @
     [(''nvt'', analyzeNVT n)] \<and>
   breakdown (calculateRecommendedCashAllocation (i\<lparr>i_nvt := Some n\<rparr>)) =
     breakdown (calculateRecommendedCashAllocation (i\<lparr>i_nvt := None\<rparr>)) @
     [\<lparr>indicator = ''nvt'', b_score = score (analyzeNVT n), b_weight = 0,
       b_contribution = 0, b_action = ia_action (analyzeNVT n),
       b_reason = ia_reason (analyzeNVT n)\<rparr>]"
proof -
  have fixed:
    "c_score (calculateRecommendedCashAllocation (i\<lparr>i_nvt := x\<rparr>)) =
       c_score (calculateRecommendedCashAllocation i) \<and>
     recommendedCash (calculateRecommendedCashAllocation (i\<lparr>i_nvt := x\<rparr>)) =
       recommendedCash (calculateRecommendedCashAllocation i) \<and>
     c_riskLevel (calculateRecommendedCashAllocation (i\<lparr>i_nvt := x\<rparr>)) =
       c_riskLevel (calculateRecommendedCashAllocation i) \<and>
     strategy (calculateRecommendedCashAllocation (i\<lparr>i_nvt := x\<rparr>)) =
       strategy (calculateRecommendedCashAllocation i)"
    by (simp add: calculateRecommendedCashAllocation_def finalScore_nvt Let_def)
  have listed:
    "analyses (calculateRecommendedCashAllocation (i\<lparr>i_nvt := Some n\<rparr>)) =
       analyses (calculateRecommendedCashAllocation (i\<lparr>i_nvt := None\<rparr>)) @
       [(''nvt'', analyzeNVT n)]"
    by (simp add: calculateRecommendedCashAllocation_def Let_def buildAnalyses_def
        split: prod.split)
  have broken:
    "breakdown (calculateRecommendedCashAllocation (i\<lparr>i_nvt := Some n\<rparr>)) =
       breakdown (calculateRecommendedCashAllocation (i\<lparr>i_nvt := None\<rparr>)) @
       [\<lparr>indicator = ''nvt'', b_score = score (analyzeNVT n), b_weight = 0,
         b_contribution = 0, b_action = ia_action (analyzeNVT n),
         b_reason = ia_reason (analyzeNVT n)\<rparr>]"
    by (simp add: calculateRecommendedCashAllocation_def Let_def buildAnalyses_def
        breakdownOf_def weightOrZero_def WEIGHTS_def truthy_def nullish_def
        split: prod.split)
  from finalScore_nvt [where i = i and x = x] fixed listed broken show ?thesis by simp
qed

text \<open>
  Claim C2 as stated fails. In the greed scenario an \<^verbatim>\<open>nvt\<close> of 10 scores 25, far
  below the other indicators, and is listed in the analyses; the totals of the weighted
  average stay at 76.25 over 0.9. No two inputs that differ only in \<^verbatim>\<open>nvt\<close> have
  different scores.
\<close>

theorem nvt_score_never_differs:
  "map_of (analyses (calculateRecommendedCashAllocation (greedScenario\<lparr>i_nvt := Some 10\<rparr>)))
     ''nvt'' = Some (analyzeNVT 10) \<and>
   score (analyzeNVT 10) = 25 \<and>
   cashTotals (buildAnalyses (greedScenario\<lparr>i_nvt := Some 10\<rparr>)) = (76.25, 0.9) \<and>
   cashTotals (buildAnalyses greedScenario) = (76.25, 0.9) \<and>
   \<not> (\<exists>i x y. c_score (calculateRecommendedCashAllocation (i\<lparr>i_nvt := x\<rparr>)) \<noteq>
               c_score (calculateRecommendedCashAllocation (i\<lparr>i_nvt := y\<rparr>)))"
proof -
  have listed:
    "map_of (analyses (calculateRecommendedCashAllocation (greedScenario\<lparr>i_nvt := Some 10\<rparr>)))
       ''nvt'' = Some (analyzeNVT 10)"
    by (simp add: calculateRecommendedCashAllocation_def Let_def buildAnalyses_def
        split: prod.split)
  have scored: "score (analyzeNVT 10) = 25"
    by (simp add: analyzeNVT_def)
  have with_nvt: "cashTotals (buildAnalyses (greedScenario\<lparr>i_nvt := Some 10\<rparr>)) = (76.25, 0.9)"
    by (simp add: cashTotals_buildAnalyses greedScenario_def nullish_def scorer_defs)
  have same:
    "c_score (calculateRecommendedCashAllocation (i\<lparr>i_nvt := x\<rparr>)) =
     c_score (calculateRecommendedCashAllocation (i\<lparr>i_nvt := y\<rparr>))" for i x y
    by (simp add: calculateRecommendedCashAllocation_def finalScore_nvt Let_def)
  from listed scored with_nvt greedScenario_totals same show ?thesis by simp
qed

text \<open>
  Claim C3, as amended. An absent \<^verbatim>\<open>fearGreed\<close>, \<^verbatim>\<open>mvrv\<close>, \<^verbatim>\<open>kimchiPremium\<close>,
  \<^verbatim>\<open>exchangeFlow\<close> or \<^verbatim>\<open>vix\<close> is never skipped: it is replaced by the default
  50, 2, 0, 0 or 20, scored, and counted in the weighted average with its full weight.
  For every input the result is the one for the input with the defaults written in, and
  the total weight is always 0.9.
\<close>

theorem absent_indicators_take_defaults:
  "calculateRecommendedCashAllocation i =
     calculateRecommendedCashAllocation
       (i\<lparr>i_fearGreed := Some (nullish (i_fearGreed i) 50),
          i_mvrv := Some (nullish (i_mvrv i) 2),
          i_kimchiPremium := Some (nullish (i_kimchiPremium i) 0),
          exchangeFlow := Some (nullish (exchangeFlow i) 0),
          vix := Some (nullish (vix i) 20)\<rparr>) \<and>
   snd (cashTotals (buildAnalyses i)) = 0.9"
proof
  show "calculateRecommendedCashAllocation i =
     calculateRecommendedCashAllocation
       (i\<lparr>i_fearGreed := Some (nullish (i_fearGreed i) 50),
          i_mvrv := Some (nullish (i_mvrv i) 2),
          i_kimchiPremium := Some (nullish (i_kimchiPremium i) 0),
          exchangeFlow := Some (nullish (exchangeFlow i) 0),
          vix := Some (nullish (vix i) 20)\<rparr>)"
    by (simp add: calculateRecommendedCashAllocation_def buildAnalyses_def nullish_def)
  show "snd (cashTotals (buildAnalyses i)) = 0.9"
    by (simp add: cashTotals_buildAnalyses)
qed

text \<open>
  Claim C3 as stated fails. With only \<^verbatim>\<open>fearGreed = 90\<close> present, the analyses hold
  an \<^verbatim>\<open>mvrv\<close> entry scored from the default 2, the total weight is 0.9, and the final
  score is 1105/18 (about 61.4); skipping the absent indicators would give 510/7
  (about 72.9).
\<close>

theorem absent_indicators_not_skipped:
  "map_of (buildAnalyses fearGreedOnly) ''mvrv'' = Some (analyzeMVRV 2) \<and>
   snd (cashTotals (buildAnalyses fearGreedOnly)) = 0.9 \<and>
   finalScoreOf (buildAnalyses fearGreedOnly) = 1105 / 18 \<and>
   finalScoreOf (buildAnalysesSkipping fearGreedOnly) = 510 / 7"
proof -
  have entry: "map_of (buildAnalyses fearGreedOnly) ''mvrv'' = Some (analyzeMVRV 2)"
    by (simp add: buildAnalyses_def fearGreedOnly_def nullish_def)
  have totals: "cashTotals (buildAnalyses fearGreedOnly) = (55.25, 0.9)"
    by (simp add: cashTotals_buildAnalyses fearGreedOnly_def nullish_def scorer_defs)
  have final: "finalScoreOf (buildAnalyses fearGreedOnly) = 1105 / 18"
    by (simp add: finalScoreOf_def totals)
  have skipped: "finalScoreOf (buildAnalysesSkipping fearGreedOnly) = 510 / 7"
    by (simp add: finalScoreOf_def cashTotals_def WEIGHTS_def buildAnalysesSkipping_def
        fearGreedOnly_def nullish_def scorer_defs)
  from entry totals final skipped show ?thesis by simp
qed

section \<open>Valuation risk: facts about the normalizers\<close>

lemma clamp01_mono: "a \<le> b \<Longrightarrow> clamp01 a \<le> clamp01 b"
  by (simp add: clamp01_def min_def max_def)

lemma clamp01_range: "0 \<le> clamp01 v \<and> clamp01 v \<le> 1"
  by (simp add: clamp01_def min_def max_def)

lemma conf_mvrv: "confidence (analyzeMVRVValuation m c) = 1"
  by (simp add: analyzeMVRVValuation_def Let_def split: prod.split)

lemma conf_nvt: "confidence (analyzeNVTValuation n c) = 1"
  by (simp add: analyzeNVTValuation_def Let_def split: prod.split)

lemma conf_ma: "ma \<noteq> 0 \<Longrightarrow> confidence (analyzePriceVsMA p ma t c) = 1"
  by (simp add: analyzePriceVsMA_def Let_def split: prod.split)

lemma conf_netflow: "confidence (analyzeExchangeNetflowValuation x) = 1"
  by (simp add: analyzeExchangeNetflowValuation_def Let_def split: prod.split)

lemma conf_fearGreed: "confidence (analyzeFearGreedValuation x) = 1"
  by (simp add: analyzeFearGreedValuation_def Let_def)

lemma conf_kimchi: "confidence (analyzeKimchiPremiumValuation x) = 1"
  by (simp add: analyzeKimchiPremiumValuation_def Let_def split: prod.split)

lemma conf_active: "a \<noteq> 0 \<Longrightarrow> confidence (analyzeActiveAddressRatio x a) = 1"
  by (simp add: analyzeActiveAddressRatio_def Let_def split: prod.split)

lemma conf_cycle_guard:
  "h = 0 \<or> l = 0 \<or> h \<le> l \<Longrightarrow> confidence (analyzeCyclePosition p h l) = 0"
  by (simp add: analyzeCyclePosition_def)

lemma conf_cycle_valid:
  "\<not> (h = 0 \<or> l = 0 \<or> h \<le> l) \<Longrightarrow> confidence (analyzeCyclePosition p h l) = 0.8"
  by (simp add: analyzeCyclePosition_def Let_def)

lemma name_cycle: "name (analyzeCyclePosition p h l) = ''cyclePosition''"
  by (simp add: analyzeCyclePosition_def Let_def)

lemma conf_realized: "r \<noteq> 0 \<Longrightarrow> confidence (analyzeRealizedPriceRatio p r) = 1"
  by (simp add: analyzeRealizedPriceRatio_def Let_def split: prod.split)

lemma conf_social: "confidence (analyzeSocialSentimentValuation x) = 1"
  by (simp add: analyzeSocialSentimentValuation_def Let_def)

lemma conf_news: "confidence (analyzeNewsSentimentValuation x) = 0.8"
  by (simp add: analyzeNewsSentimentValuation_def Let_def)

lemma conf_funding: "confidence (analyzeFundingRateValuation x) = 1"
  by (simp add: analyzeFundingRateValuation_def Let_def split: prod.split)

lemma ns_mvrv: "normalizedScore (analyzeMVRVValuation m c) \<in> {0..1}"
  using clamp01_range by (simp add: analyzeMVRVValuation_def Let_def split: prod.split)

lemma ns_nvt: "normalizedScore (analyzeNVTValuation n c) \<in> {0..1}"
  using clamp01_range by (simp add: analyzeNVTValuation_def Let_def split: prod.split)

lemma ns_ma: "normalizedScore (analyzePriceVsMA p ma t c) \<in> {0..1}"
  using clamp01_range by (simp add: analyzePriceVsMA_def Let_def split: prod.split)

lemma ns_netflow: "normalizedScore (analyzeExchangeNetflowValuation x) \<in> {0..1}"
  by (simp add: analyzeExchangeNetflowValuation_def Let_def split: prod.split)

lemma ns_fearGreed:
  "0 \<le> x \<Longrightarrow> x \<le> 100 \<Longrightarrow> normalizedScore (analyzeFearGreedValuation x) \<in> {0..1}"
  by (simp add: analyzeFearGreedValuation_def Let_def)

lemma ns_kimchi: "normalizedScore (analyzeKimchiPremiumValuation x) \<in> {0..1}"
  by (simp add: analyzeKimchiPremiumValuation_def Let_def split: prod.split)

lemma ns_active: "normalizedScore (analyzeActiveAddressRatio x a) \<in> {0..1}"
  by (simp add: analyzeActiveAddressRatio_def Let_def split: prod.split)

lemma ns_cycle: "normalizedScore (analyzeCyclePosition p h l) \<in> {0..1}"
  using clamp01_range by (simp add: analyzeCyclePosition_def Let_def)

lemma ns_realized: "normalizedScore (analyzeRealizedPriceRatio p r) \<in> {0..1}"
  by (simp add: analyzeRealizedPriceRatio_def Let_def split: prod.split)

lemma ns_social: "normalizedScore (analyzeSocialSentimentValuation x) \<in> {0..1}"
  using clamp01_range by (simp add: analyzeSocialSentimentValuation_def Let_def)

lemma ns_news: "normalizedScore (analyzeNewsSentimentValuation x) \<in> {0..1}"
  using clamp01_range by (simp add: analyzeNewsSentimentValuation_def Let_def)

lemma ns_funding: "normalizedScore (analyzeFundingRateValuation x) \<in> {0..1}"
  by (simp add: analyzeFundingRateValuation_def Let_def split: prod.split)

text \<open>
  The MVRV score never decreases as MVRV grows, in every category: each linear piece
  rises, and each piece starts no lower than the previous one ends (for the growth and
  speculative categories the fourth piece is empty and the score jumps from below 0.6
  to at least 0.9).
\<close>

lemma mvrv_mono:
  "m1 \<le> m2 \<Longrightarrow>
   normalizedScore (analyzeMVRVValuation m1 c) \<le> normalizedScore (analyzeMVRVValuation m2 c)"
  by (cases c)
     (simp_all add: analyzeMVRVValuation_def Let_def clamp01_def min_def max_def field_simps)

section \<open>Valuation risk: facts about the aggregation\<close>

lemma runBlocks_Nil: "runBlocks w [] s = s"
  by (simp add: runBlocks_def)

lemma runBlocks_Cons: "runBlocks w ((k, a) # cs) s = runBlocks w cs (block (w k) a s)"
  by (simp add: runBlocks_def)

lemma block_cases:
  "block w a s = s \<or>
   (\<exists>wv av. w = Some wv \<and> wv \<noteq> 0 \<and> a = Some av \<and> block w a s = addMetric wv av s)"
  by (auto simp: block_def truthy_def split: option.splits)

lemma weights_pos: "map_of (TIMEFRAME_WEIGHTS tf) k = Some wv \<Longrightarrow> 0 < wv"
  by (cases tf) (auto split: if_splits)

text \<open>Blocks whose metric is absent from the input or from the weight table do nothing.\<close>

lemma runBlocks_skip:
  "list_all (\<lambda>(k, a). a = None \<or> w k = None) cs \<Longrightarrow> runBlocks w cs s = s"
proof (induction cs arbitrary: s)
  case Nil
  show ?case by (simp add: runBlocks_Nil)
next
  case (Cons c cs)
  obtain k a where c: "c = (k, a)" by (cases c)
  from Cons.prems have "a = None \<or> w k = None" by (simp add: c)
  then have "block (w k) a s = s"
    by (auto simp add: block_def truthy_def split: option.splits)
  with Cons show ?case by (simp add: c runBlocks_Cons)
qed

lemma timeframe_neutral:
  assumes "list_all (\<lambda>(k, a). a = None \<or> map_of (TIMEFRAME_WEIGHTS tf) k = None)
             (candidates i c)"
  shows "overvaluationScore (calculateTimeframeAssessment tf i c) = 0.5 \<and>
         tf_confidence (calculateTimeframeAssessment tf i c) = 0 \<and>
         metrics (calculateTimeframeAssessment tf i c) = []"
  using runBlocks_skip [OF assms, of initAcc]
  by (simp add: calculateTimeframeAssessment_def Let_def initAcc_def)

lemma candidates_bare:
  "list_all (\<lambda>(k, a). a = None \<or> w k = None) (candidates (bareInput sy p) c)"
  by (simp add: candidates_def bareInput_def ifDefined_def ifTruthy_def)

text \<open>Every metric of the result was produced by a candidate whose weight is non-zero.\<close>

lemma runBlocks_origin:
  "m \<in> set (acc_metrics (runBlocks w cs s)) \<Longrightarrow>
     m \<in> set (acc_metrics s) \<or>
     (\<exists>k a wv. (k, Some a) \<in> set cs \<and> w k = Some wv \<and> wv \<noteq> 0 \<and> m = a\<lparr>weight := wv\<rparr>)"
proof (induction cs arbitrary: s)
  case Nil
  then show ?case by (simp add: runBlocks_Nil)
next
  case (Cons c cs)
  obtain k a where c: "c = (k, a)" by (cases c)
  from Cons.prems have "m \<in> set (acc_metrics (runBlocks w cs (block (w k) a s)))"
    by (simp add: c runBlocks_Cons)
  from Cons.IH [OF this] show ?case
  proof
    assume inb: "m \<in> set (acc_metrics (block (w k) a s))"
    from block_cases [of "w k" a s] show ?thesis
    proof
      assume "block (w k) a s = s"
      with inb show ?thesis by simp
    next
      assume "\<exists>wv av. w k = Some wv \<and> wv \<noteq> 0 \<and> a = Some av \<and>
                block (w k) a s = addMetric wv av s"
      then obtain wv av where b: "w k = Some wv" "wv \<noteq> 0" "a = Some av"
        "block (w k) a s = addMetric wv av s" by blast
      from inb b have "m \<in> set (acc_metrics s) \<or> m = av\<lparr>weight := wv\<rparr>"
        by (auto simp add: addMetric_def Let_def)
      then show ?thesis
      proof
        assume "m \<in> set (acc_metrics s)"
        then show ?thesis by simp
      next
        assume "m = av\<lparr>weight := wv\<rparr>"
        with b have "(k, Some av) \<in> set (c # cs) \<and> w k = Some wv \<and> wv \<noteq> 0 \<and>
                     m = av\<lparr>weight := wv\<rparr>"
          by (simp add: c)
        then show ?thesis by blast
      qed
    qed
  next
    assume "\<exists>k a wv. (k, Some a) \<in> set cs \<and> w k = Some wv \<and> wv \<noteq> 0 \<and>
              m = a\<lparr>weight := wv\<rparr>"
    then obtain k' a' wv' where
      "(k', Some a') \<in> set (c # cs) \<and> w k' = Some wv' \<and> wv' \<noteq> 0 \<and> m = a'\<lparr>weight := wv'\<rparr>"
      by auto
    then show ?thesis by blast
  qed
qed

text \<open>
  Two runs over the same blocks, started with equal total weights and ordered weighted
  scores, end with equal total weights and ordered weighted scores.
\<close>

lemma runBlocks_mono:
  "totalWeight s1 = totalWeight s2 \<Longrightarrow> weightedScore s1 \<le> weightedScore s2 \<Longrightarrow>
   totalWeight (runBlocks w cs s1) = totalWeight (runBlocks w cs s2) \<and>
   weightedScore (runBlocks w cs s1) \<le> weightedScore (runBlocks w cs s2)"
proof (induction cs arbitrary: s1 s2)
  case Nil
  then show ?case by (simp add: runBlocks_Nil)
next
  case (Cons c cs)
  obtain k a where c: "c = (k, a)" by (cases c)
  have "totalWeight (block (w k) a s1) = totalWeight (block (w k) a s2) \<and>
        weightedScore (block (w k) a s1) \<le> weightedScore (block (w k) a s2)"
    using Cons.prems
    by (simp add: block_def addMetric_def Let_def split: option.splits)
  then show ?case
    using Cons.IH [of "block (w k) a s1" "block (w k) a s2"]
    by (simp add: c runBlocks_Cons)
qed

lemma candidates_mvrv:
  "candidates (i\<lparr>mvrv := Some m\<rparr>) c =
     (''mvrv'', Some (analyzeMVRVValuation m c)) # tl (candidates i c)"
  by (simp add: candidates_def ifDefined_def split: option.split)

lemma first_block_mono:
  assumes "m1 \<le> m2"
  shows "totalWeight (block (map_of (TIMEFRAME_WEIGHTS tf) ''mvrv'')
                        (Some (analyzeMVRVValuation m1 c)) s) =
         totalWeight (block (map_of (TIMEFRAME_WEIGHTS tf) ''mvrv'')
                        (Some (analyzeMVRVValuation m2 c)) s) \<and>
         weightedScore (block (map_of (TIMEFRAME_WEIGHTS tf) ''mvrv'')
                          (Some (analyzeMVRVValuation m1 c)) s) \<le>
         weightedScore (block (map_of (TIMEFRAME_WEIGHTS tf) ''mvrv'')
                          (Some (analyzeMVRVValuation m2 c)) s)"
proof (cases "map_of (TIMEFRAME_WEIGHTS tf) ''mvrv''")
  case None
  then show ?thesis by (simp add: block_def truthy_def)
next
  case (Some wv)
  then have "0 < wv" by (rule weights_pos)
  with Some mvrv_mono [OF assms, of c] show ?thesis
    by (simp add: block_def truthy_def addMetric_def Let_def conf_mvrv)
qed

lemma timeframe_mvrv_mono:
  assumes "m1 \<le> m2"
  shows "overvaluationScore (calculateTimeframeAssessment tf (i\<lparr>mvrv := Some m1\<rparr>) c) \<le>
         overvaluationScore (calculateTimeframeAssessment tf (i\<lparr>mvrv := Some m2\<rparr>) c)"
proof -
  let ?w = "map_of (TIMEFRAME_WEIGHTS tf)"
  let ?r1 = "runBlocks ?w (candidates (i\<lparr>mvrv := Some m1\<rparr>) c) initAcc"
  let ?r2 = "runBlocks ?w (candidates (i\<lparr>mvrv := Some m2\<rparr>) c) initAcc"
  have "totalWeight ?r1 = totalWeight ?r2 \<and> weightedScore ?r1 \<le> weightedScore ?r2"
    unfolding candidates_mvrv runBlocks_Cons
    using first_block_mono [OF assms, of tf c initAcc]
    by (intro runBlocks_mono) simp_all
  then show ?thesis
    by (simp add: calculateTimeframeAssessment_def Let_def divide_right_mono)
qed

lemma ifDefined_Some: "ifDefined x f = Some a \<longleftrightarrow> (\<exists>v. x = Some v \<and> a = f v)"
  by (auto simp add: ifDefined_def split: option.splits)

lemma ifTruthy_Some:
  "ifTruthy x f = Some a \<longleftrightarrow> (\<exists>v. x = Some v \<and> v \<noteq> 0 \<and> a = f v)"
  by (auto simp add: ifTruthy_def split: option.splits)

lemma ifTruthy_case_Some:
  "(case ifTruthy x (\<lambda>v. v) of None \<Rightarrow> None | Some v \<Rightarrow> ifTruthy y (f v)) = Some a \<longleftrightarrow>
   (\<exists>v u. x = Some v \<and> v \<noteq> 0 \<and> y = Some u \<and> u \<noteq> 0 \<and> a = f v u)"
  by (auto simp add: ifTruthy_def split: option.splits)

text \<open>
  Among the candidates only the cycle position can carry confidence 0, and only through
  the \<^verbatim>\<open>ath <= cycleLow\<close> part of its guard: the truthiness tests have already
  excluded the zeros.
\<close>

lemma candidates_conf0:
  assumes "(k, Some a) \<in> set (candidates i c)" "confidence a = 0"
  shows "name a = ''cyclePosition'' \<and>
     (\<exists>h l. ath i = Some h \<and> cycleLow i = Some l \<and> h \<noteq> 0 \<and> l \<noteq> 0 \<and> h \<le> l)"
proof -
  from assms(1) have
    "Some a = ifDefined (mvrv i) (\<lambda>v. analyzeMVRVValuation v c) \<or>
     Some a = ifDefined (nvt i) (\<lambda>v. analyzeNVTValuation v c) \<or>
     Some a = ifTruthy (ma50 i) (\<lambda>m. analyzePriceVsMA (currentPrice i) m ''50'' c) \<or>
     Some a = ifTruthy (ma200 i) (\<lambda>m. analyzePriceVsMA (currentPrice i) m ''200'' c) \<or>
     Some a = ifDefined (exchangeNetflow i) analyzeExchangeNetflowValuation \<or>
     Some a = ifDefined (fearGreed i) analyzeFearGreedValuation \<or>
     Some a = ifDefined (kimchiPremium i) analyzeKimchiPremiumValuation \<or>
     Some a = (case ifTruthy (activeAddresses i) (\<lambda>c. c) of None \<Rightarrow> None
               | Some c \<Rightarrow>
                   ifTruthy (activeAddresses30dAvg i) (\<lambda>a. analyzeActiveAddressRatio c a)) \<or>
     Some a = (case ifTruthy (ath i) (\<lambda>a. a) of None \<Rightarrow> None
               | Some a \<Rightarrow>
                   ifTruthy (cycleLow i) (\<lambda>l. analyzeCyclePosition (currentPrice i) a l)) \<or>
     Some a = ifTruthy (realizedPrice i) (\<lambda>r. analyzeRealizedPriceRatio (currentPrice i) r) \<or>
     Some a = ifDefined (sentiment i)
                (\<lambda>sd. analyzeSocialSentimentValuation (socialSentiment sd)) \<or>
     Some a = ifDefined (sentiment i) (\<lambda>sd. analyzeNewsSentimentValuation (newsScore sd)) \<or>
     Some a = ifDefined (sentiment i) (\<lambda>sd. analyzeFundingRateValuation (fundingRate sd))"
    unfolding candidates_def by (simp only: list.set insert_iff empty_iff prod.inject) blast
  then show ?thesis
  proof (elim disjE)
    assume "Some a = (case ifTruthy (ath i) (\<lambda>a. a) of None \<Rightarrow> None
               | Some a \<Rightarrow>
                   ifTruthy (cycleLow i) (\<lambda>l. analyzeCyclePosition (currentPrice i) a l))"
    then have "(case ifTruthy (ath i) (\<lambda>a. a) of None \<Rightarrow> None
               | Some a \<Rightarrow>
                   ifTruthy (cycleLow i) (\<lambda>l. analyzeCyclePosition (currentPrice i) a l)) =
               Some a"
      by simp
    then obtain h l where hl: "ath i = Some h" "h \<noteq> 0" "cycleLow i = Some l" "l \<noteq> 0"
       "a = analyzeCyclePosition (currentPrice i) h l"
      unfolding ifTruthy_case_Some by blast
    have "h \<le> l"
    proof (rule ccontr)
      assume "\<not> h \<le> l"
      with hl have "confidence a = 0.8" by (simp add: conf_cycle_valid)
      with assms(2) show False by simp
    qed
    with hl show ?thesis by (simp add: name_cycle)
  qed (use assms(2) in \<open>auto simp add: ifDefined_Some ifTruthy_Some ifTruthy_case_Some
         conf_mvrv conf_nvt conf_ma conf_netflow conf_fearGreed conf_kimchi conf_active
         conf_realized conf_social conf_news conf_funding dest!: sym [of "Some a"]\<close>)
qed

lemma zero_is_absent:
  "candidates (i\<lparr>ma50 := Some 0\<rparr>) c = candidates (i\<lparr>ma50 := None\<rparr>) c"
  "candidates (i\<lparr>ma200 := Some 0\<rparr>) c = candidates (i\<lparr>ma200 := None\<rparr>) c"
  "candidates (i\<lparr>realizedPrice := Some 0\<rparr>) c = candidates (i\<lparr>realizedPrice := None\<rparr>) c"
  "candidates (i\<lparr>ath := Some 0\<rparr>) c = candidates (i\<lparr>ath := None\<rparr>) c"
  "candidates (i\<lparr>cycleLow := Some 0\<rparr>) c = candidates (i\<lparr>cycleLow := None\<rparr>) c"
  "candidates (i\<lparr>activeAddresses := Some 0\<rparr>) c =
     candidates (i\<lparr>activeAddresses := None\<rparr>) c"
  "candidates (i\<lparr>activeAddresses30dAvg := Some 0\<rparr>) c =
     candidates (i\<lparr>activeAddresses30dAvg := None\<rparr>) c"
  by (simp_all add: candidates_def ifTruthy_def split: option.split)

lemma block_None_right: "block w None s = s"
  by (simp add: block_def split: option.split)

lemma block_None_left: "block None a s = s"
  by (simp add: block_def truthy_def)

lemma block_Some: "wv \<noteq> 0 \<Longrightarrow> block (Some wv) (Some av) s = addMetric wv av s"
  by (simp add: block_def truthy_def)

lemma invertedCycle_candidates:
  "candidates invertedCycle core =
     [(''mvrv'', None), (''nvt'', None), (''priceVsMa50'', None), (''priceVsMa200'', None),
      (''exchangeNetflow'', None), (''fearGreed'', None), (''kimchiPremium'', None),
      (''activeAddressRatio'', None),
      (''cyclePosition'', Some (analyzeCyclePosition 1 1 2)),
      (''realizedPriceRatio'', None), (''socialSentiment'', None),
      (''newsSentiment'', None), (''fundingRate'', None)]"
  by (simp add: candidates_def invertedCycle_def bareInput_def ifDefined_def ifTruthy_def)

lemma invertedCycle_run:
  "runBlocks (map_of (TIMEFRAME_WEIGHTS tf_long)) (candidates invertedCycle core) initAcc =
   addMetric 0.18 (analyzeCyclePosition 1 1 2) initAcc"
  by (simp add: invertedCycle_candidates runBlocks_Cons runBlocks_Nil block_None_right
      block_Some)

lemma invertedCycle_long:
  "metrics (calculateTimeframeAssessment tf_long invertedCycle core) =
     [\<lparr>name = ''cyclePosition'', mvalue = 0, normalizedScore = 0.5, weight = 0.18,
       confidence = 0, reason = (''no data'', None)\<rparr>] \<and>
   overvaluationScore (calculateTimeframeAssessment tf_long invertedCycle core) = 0"
  unfolding calculateTimeframeAssessment_def Let_def invertedCycle_run
  by (simp add: addMetric_def initAcc_def analyzeCyclePosition_def)

section \<open>Valuation risk: facts about the driver extraction\<close>

text \<open>Sorting commutes with mapping when the key is carried along.\<close>

lemma insort_key_map_inj:
  "insort_key f (g x) (map g xs) = map g (insort_key (\<lambda>a. f (g a)) x xs)"
  by (induction xs) simp_all

lemma sort_key_map_inj:
  "sort_key f (map g xs) = map g (sort_key (\<lambda>a. f (g a)) xs)"
  by (induction xs) (simp_all add: insort_key_map_inj)

lemma take_drop_sorted:
  assumes "sorted (map f xs)" "a \<in> set (take n xs)" "b \<in> set (drop n xs)"
  shows "f a \<le> f b"
proof -
  have "sorted (map f (take n xs) @ map f (drop n xs))"
    using assms(1) by (simp flip: map_append)
  with assms(2,3) show ?thesis
    by (auto simp add: sorted_append)
qed

lemma desc_sort:
  fixes c :: "'a \<Rightarrow> real"
  shows "map c (sort_key (\<lambda>x. - c x) xs) = rev (sort (map c xs))"
proof -
  let ?s = "sort_key (\<lambda>x. - c x) xs"
  have "sorted (map (\<lambda>x. - c x) ?s)" by (rule sorted_sort_key)
  then have "sorted_wrt (\<lambda>a b. b \<le> a) (map c ?s)"
    by (simp add: sorted_wrt_map)
  then have "sorted (rev (map c ?s))"
    by (simp add: sorted_wrt_rev)
  moreover have "mset (rev (map c ?s)) = mset (map c xs)" by simp
  ultimately have "sort (map c xs) = rev (map c ?s)"
    by (rule properties_for_sort [OF _ _, rotated]) 
  then show ?thesis by simp
qed

text \<open>
  The drivers are built from the first five entries of the pooled metrics, sorted stably
  by descending contribution.
\<close>

lemma extractKeyDrivers_sorted_pairs:
  "extractKeyDrivers s m l =
     map (\<lambda>(x, t). toDriver (x, t, contributionOf x))
       (take 5 (sort_key (\<lambda>(x, t). - contributionOf x)
          (map (\<lambda>x. (x, tf_short)) (metrics s) @
           map (\<lambda>x. (x, tf_medium)) (metrics m) @
           map (\<lambda>x. (x, tf_long)) (metrics l))))"
proof -
  have k: "(\<lambda>a. (\<lambda>(x :: MetricAnalysis, t :: ValuationTimeframe, c :: real). - c)
                  ((\<lambda>(x, t). (x, t, contributionOf x)) a)) =
           (\<lambda>(x, t). - contributionOf x)"
    by (auto simp add: fun_eq_iff)
  show ?thesis
    unfolding extractKeyDrivers_def Let_def sort_key_map_inj k
    by (simp add: take_map split_def comp_def del: sort_key_simps)
qed

section \<open>Valuation risk: properties\<close>

text \<open>
  Claim C4. \<^verbatim>\<open>calculateValuationRisk\<close> is monotonic in MVRV: for every input and
  every pair \<open>m1 \<le> m2\<close>, all other fields held fixed, the composite score computed with
  \<^verbatim>\<open>mvrv = m2\<close> is at least the one computed with \<^verbatim>\<open>mvrv = m1\<close>. The same
  holds for the score of each timeframe under any asset category.
\<close>

theorem compositeScore_monotone_in_mvrv:
  assumes "m1 \<le> m2"
  shows "compositeScore (calculateValuationRisk (i\<lparr>mvrv := Some m1\<rparr>)) \<le>
         compositeScore (calculateValuationRisk (i\<lparr>mvrv := Some m2\<rparr>)) \<and>
         overvaluationScore (calculateTimeframeAssessment tf (i\<lparr>mvrv := Some m1\<rparr>) c) \<le>
         overvaluationScore (calculateTimeframeAssessment tf (i\<lparr>mvrv := Some m2\<rparr>) c)"
proof -
  let ?c = "getAssetCategory (symbol i)"
  have short_le:
    "overvaluationScore (calculateTimeframeAssessment tf_short (i\<lparr>mvrv := Some m1\<rparr>) ?c) \<le>
     overvaluationScore (calculateTimeframeAssessment tf_short (i\<lparr>mvrv := Some m2\<rparr>) ?c)"
    using assms by (rule timeframe_mvrv_mono)
  have medium_le:
    "overvaluationScore (calculateTimeframeAssessment tf_medium (i\<lparr>mvrv := Some m1\<rparr>) ?c) \<le>
     overvaluationScore (calculateTimeframeAssessment tf_medium (i\<lparr>mvrv := Some m2\<rparr>) ?c)"
    using assms by (rule timeframe_mvrv_mono)
  have long_le:
    "overvaluationScore (calculateTimeframeAssessment tf_long (i\<lparr>mvrv := Some m1\<rparr>) ?c) \<le>
     overvaluationScore (calculateTimeframeAssessment tf_long (i\<lparr>mvrv := Some m2\<rparr>) ?c)"
    using assms by (rule timeframe_mvrv_mono)
  from short_le medium_le long_le
  have "compositeScore (calculateValuationRisk (i\<lparr>mvrv := Some m1\<rparr>)) \<le>
        compositeScore (calculateValuationRisk (i\<lparr>mvrv := Some m2\<rparr>))"
    by (simp add: calculateValuationRisk_def Let_def)
  with timeframe_mvrv_mono [OF assms, of tf i c] show ?thesis by simp
qed

theorem compositeScore_monotone_in_mvrv_witness:
  "(1.2 :: real) \<le> 3 \<and>
   compositeScore (calculateValuationRisk ((bareInput ''BTC'' 50000)\<lparr>mvrv := Some 1.2\<rparr>)) \<le>
   compositeScore (calculateValuationRisk ((bareInput ''BTC'' 50000)\<lparr>mvrv := Some 3\<rparr>))"
proof -
  have le: "(1.2 :: real) \<le> 3" by simp
  from compositeScore_monotone_in_mvrv [OF le, of "bareInput ''BTC'' 50000"] le
  show ?thesis by simp
qed

text \<open>
  Claim C5. For every input that carries only \<^verbatim>\<open>symbol\<close> and \<^verbatim>\<open>currentPrice\<close>
  (every optional indicator absent), \<^verbatim>\<open>calculateValuationRisk\<close> returns composite
  score exactly 0.5 and risk level ELEVATED: the bucket test \<^verbatim>\<open>score < 0.4\<close> fails and
  \<^verbatim>\<open>score < 0.6\<close> holds.
\<close>

theorem bare_input_is_elevated:
  "compositeScore (calculateValuationRisk (bareInput sy p)) = 0.5 \<and>
   r_riskLevel (calculateValuationRisk (bareInput sy p)) = ELEVATED"
proof -
  have half: "overvaluationScore (calculateTimeframeAssessment tf (bareInput sy p) c) = 0.5"
    for tf c
    using timeframe_neutral [OF candidates_bare] by simp
  show ?thesis
    by (simp add: calculateValuationRisk_def Let_def getValuationRiskLevel_def half)
qed



text \<open>
  Claim C7. Every metric normalizer of the valuation engine returns a normalized score
  in \<open>[0, 1]\<close> for every raw input of its domain: Fear and Greed for inputs in
  \<open>[0, 100]\<close>, every other normalizer for every real input (so in particular social
  and news sentiment on \<open>[-100, 100]\<close>), every category, and every breakpoint value.
\<close>

theorem normalizedScore_in_unit_interval:
  assumes "0 \<le> fg" "fg \<le> 100"
  shows "normalizedScore (analyzeFearGreedValuation fg) \<in> {0..1} \<and>
         normalizedScore (analyzeMVRVValuation m c) \<in> {0..1} \<and>
         normalizedScore (analyzeNVTValuation n c) \<in> {0..1} \<and>
         normalizedScore (analyzePriceVsMA p ma t c) \<in> {0..1} \<and>
         normalizedScore (analyzeExchangeNetflowValuation nf) \<in> {0..1} \<and>
         normalizedScore (analyzeKimchiPremiumValuation kp) \<in> {0..1} \<and>
         normalizedScore (analyzeActiveAddressRatio cur avg) \<in> {0..1} \<and>
         normalizedScore (analyzeCyclePosition p h l) \<in> {0..1} \<and>
         normalizedScore (analyzeRealizedPriceRatio p rp) \<in> {0..1} \<and>
         normalizedScore (analyzeSocialSentimentValuation ss) \<in> {0..1} \<and>
         normalizedScore (analyzeNewsSentimentValuation nw) \<in> {0..1} \<and>
         normalizedScore (analyzeFundingRateValuation fr) \<in> {0..1}"
  using ns_fearGreed [OF assms] ns_mvrv ns_nvt ns_ma ns_netflow ns_kimchi ns_active
    ns_cycle ns_realized ns_social ns_news ns_funding
  by blast

text \<open>
  Boundary inputs: Fear and Greed 100, MVRV at the core overbought threshold 3.5, NVT 95,
  price on its average, sentiment at the ends of its range.
\<close>

theorem normalizedScore_in_unit_interval_witness:
  "(0 :: real) \<le> 100 \<and> (100 :: real) \<le> 100 \<and>
   normalizedScore (analyzeFearGreedValuation 100) \<in> {0..1} \<and>
   normalizedScore (analyzeMVRVValuation 3.5 core) \<in> {0..1} \<and>
   normalizedScore (analyzeNVTValuation 95 core) \<in> {0..1} \<and>
   normalizedScore (analyzePriceVsMA 50000 50000 ''200'' core) \<in> {0..1} \<and>
   normalizedScore (analyzeSocialSentimentValuation (-100)) \<in> {0..1} \<and>
   normalizedScore (analyzeNewsSentimentValuation 100) \<in> {0..1}"
proof -
  have lo: "(0 :: real) \<le> 100" and hi: "(100 :: real) \<le> 100" by simp_all
  from normalizedScore_in_unit_interval
         [OF lo hi, of "3.5" core 95 50000 50000 "''200''" 0 0 1 1 0 0 0 "-100" 100 0]
  show ?thesis using lo hi by simp
qed

text \<open>
  Claim C8. For every triple of timeframe assessments, \<^verbatim>\<open>extractKeyDrivers\<close> returns
  at most 5 drivers (exactly the smaller of 5 and the number of pooled metrics), in
  descending order of contribution, and each driver comes from a pooled metric whose
  \<open>|normalizedScore - 0.5| * weight * confidence\<close> is the driver's contribution. The
  drivers are the top of the pool: their contributions are the first five of the pool's
  contributions in descending order, and the pool of metrics tagged with their timeframe
  splits into the entries kept, one per driver and in the drivers' order, and the entries
  left out, none of which contributes more than any entry kept.
\<close>

theorem extractKeyDrivers_top5_sorted:
  "length (extractKeyDrivers s m l) \<le> 5 \<and>
   length (extractKeyDrivers s m l) = min 5 (length (metrics s @ metrics m @ metrics l)) \<and>
   sorted_wrt (\<lambda>a b. a \<ge> b) (map contribution (extractKeyDrivers s m l)) \<and>
   (\<forall>d \<in> set (extractKeyDrivers s m l).
      \<exists>x \<in> set (metrics s @ metrics m @ metrics l).
        contribution d = \<bar>normalizedScore x - 0.5\<bar> * weight x * confidence x \<and>
        fst (metric d) = name x \<and> d_reason d = reason x) \<and>
   map contribution (extractKeyDrivers s m l) =
     take 5 (rev (sort (map (\<lambda>x. \<bar>normalizedScore x - 0.5\<bar> * weight x * confidence x)
                          (metrics s @ metrics m @ metrics l)))) \<and>
   (\<exists>kept left.
      mset (kept @ left) =
        mset (map (\<lambda>x. (x, tf_short)) (metrics s) @
              map (\<lambda>x. (x, tf_medium)) (metrics m) @
              map (\<lambda>x. (x, tf_long)) (metrics l)) \<and>
      map contribution (extractKeyDrivers s m l) =
        map (\<lambda>(x, t). \<bar>normalizedScore x - 0.5\<bar> * weight x * confidence x) kept \<and>
      map metric (extractKeyDrivers s m l) = map (\<lambda>(x, t). (name x, t)) kept \<and>
      map d_reason (extractKeyDrivers s m l) = map (\<lambda>(x, t). reason x) kept \<and>
      (\<forall>a \<in> set kept. \<forall>b \<in> set left.
         \<bar>normalizedScore (fst b) - 0.5\<bar> * weight (fst b) * confidence (fst b) \<le>
         \<bar>normalizedScore (fst a) - 0.5\<bar> * weight (fst a) * confidence (fst a)))"
proof -
  let ?all = "map (\<lambda>x. (x, tf_short)) (metrics s) @
              map (\<lambda>x. (x, tf_medium)) (metrics m) @
              map (\<lambda>x. (x, tf_long)) (metrics l)"
  let ?pool = "metrics s @ metrics m @ metrics l"
  let ?c = "\<lambda>(x :: MetricAnalysis, t :: ValuationTimeframe). contributionOf x"
  let ?key = "\<lambda>(x :: MetricAnalysis, t :: ValuationTimeframe). - contributionOf x"
  let ?S = "sort_key ?key ?all"
  let ?kept = "take 5 ?S"
  let ?left = "drop 5 ?S"
  let ?r = "extractKeyDrivers s m l"
  have key: "?key = (\<lambda>p. - ?c p)" by (auto simp add: fun_eq_iff)
  have e: "?r = map (\<lambda>(x, t). toDriver (x, t, contributionOf x)) ?kept"
    by (rule extractKeyDrivers_sorted_pairs)
  have len: "length ?r = min 5 (length ?pool)"
    by (simp add: e del: sort_key_simps)
  have contr: "map contribution ?r = map ?c ?kept"
    by (simp add: e toDriver_def split_def comp_def del: sort_key_simps)
  have labels: "map metric ?r = map (\<lambda>(x, t). (name x, t)) ?kept"
    by (simp add: e toDriver_def split_def comp_def del: sort_key_simps)
  have reasons: "map d_reason ?r = map (\<lambda>(x, t). reason x) ?kept"
    by (simp add: e toDriver_def split_def comp_def del: sort_key_simps)
  have all_c: "map ?c ?all = map contributionOf ?pool"
    by (simp add: comp_def)
  have "map ?c ?S = rev (sort (map ?c ?all))"
    unfolding key by (rule desc_sort)
  then have desc: "map ?c ?S = rev (sort (map contributionOf ?pool))"
    by (simp only: all_c)
  have top5: "map contribution ?r = take 5 (rev (sort (map contributionOf ?pool)))"
    by (simp only: contr desc [symmetric] take_map)
  have "sorted (rev (rev (sort (map contributionOf ?pool))))" by simp
  then have "sorted_wrt (\<lambda>a b. a \<ge> b) (rev (sort (map contributionOf ?pool)))"
    by (simp only: sorted_wrt_rev)
  then have srt: "sorted_wrt (\<lambda>a b. a \<ge> b) (map contribution ?r)"
    unfolding top5 by (rule sorted_wrt_take)
  have parts: "mset (?kept @ ?left) = mset ?all"
    by (simp del: sort_key_simps)
  have sorted_S: "sorted (map ?key ?S)" by (rule sorted_sort_key)
  have above: "contributionOf (fst b) \<le> contributionOf (fst a)"
    if "a \<in> set ?kept" "b \<in> set ?left" for a b
    using take_drop_sorted [OF sorted_S that] by (simp add: split_def)
  have orig: "\<exists>x \<in> set ?pool.
        contribution d = contributionOf x \<and> fst (metric d) = name x \<and> d_reason d = reason x"
    if "d \<in> set ?r" for d
  proof -
    from that obtain y where y: "y \<in> set ?kept"
        "d = (\<lambda>(x, t). toDriver (x, t, contributionOf x)) y"
      unfolding e by auto
    from y(1) have "y \<in> set ?S" by (rule in_set_takeD)
    then have "y \<in> set ?all" by (simp del: sort_key_simps)
    then have "fst y \<in> set ?pool" by auto
    with y(2) show ?thesis
      by (auto simp add: toDriver_def split_def)
  qed
  have ex: "\<exists>kept left.
      mset (kept @ left) = mset ?all \<and>
      map contribution ?r = map (\<lambda>(x, t). contributionOf x) kept \<and>
      map metric ?r = map (\<lambda>(x, t). (name x, t)) kept \<and>
      map d_reason ?r = map (\<lambda>(x, t). reason x) kept \<and>
      (\<forall>a \<in> set kept. \<forall>b \<in> set left. contributionOf (fst b) \<le> contributionOf (fst a))"
    using parts contr labels reasons above by blast
  from len srt orig top5 ex show ?thesis
    unfolding contributionOf_def by simp
qed

text \<open>
  Six pooled metrics: the five drivers in order, two of them tied at 0.03 and kept in pool
  order; the metric of contribution 0 is left out.
\<close>

theorem extractKeyDrivers_top5_sorted_witness:
  "length (extractKeyDrivers sampleShort sampleMedium sampleLong) = 5 \<and>
   map contribution (extractKeyDrivers sampleShort sampleMedium sampleLong) =
     [0.14, 0.088, 0.06, 0.03, 0.03] \<and>
   map metric (extractKeyDrivers sampleShort sampleMedium sampleLong) =
     [(''mvrv'', tf_long), (''mvrv'', tf_medium), (''fearGreed'', tf_short),
      (''nvt'', tf_medium), (''socialSentiment'', tf_long)]"
proof -
  note t = extractKeyDrivers_top5_sorted [of sampleShort sampleMedium sampleLong]
  from t have len: "length (extractKeyDrivers sampleShort sampleMedium sampleLong) = 5"
    by (simp add: sampleShort_def sampleMedium_def sampleLong_def sampleAssessment_def)
  from t have "map contribution (extractKeyDrivers sampleShort sampleMedium sampleLong) =
     take 5 (rev (sort (map (\<lambda>x. \<bar>normalizedScore x - 0.5\<bar> * weight x * confidence x)
        (metrics sampleShort @ metrics sampleMedium @ metrics sampleLong))))"
    by blast
  then have contr: "map contribution (extractKeyDrivers sampleShort sampleMedium sampleLong) =
     [0.14, 0.088, 0.06, 0.03, 0.03]"
    by (simp add: sampleShort_def sampleMedium_def sampleLong_def sampleAssessment_def
        sampleMetric_def)
  have labels: "map metric (extractKeyDrivers sampleShort sampleMedium sampleLong) =
     [(''mvrv'', tf_long), (''mvrv'', tf_medium), (''fearGreed'', tf_short),
      (''nvt'', tf_medium), (''socialSentiment'', tf_long)]"
    by (simp add: extractKeyDrivers_def Let_def sampleShort_def sampleMedium_def
        sampleLong_def sampleAssessment_def sampleMetric_def contributionOf_def toDriver_def)
  from len contr labels show ?thesis by simp
qed

text \<open>
  Claim C9. The recommendation follows the fixed table for every score and driver list:
  below 0.15 ACCUMULATE/high; from 0.15 to below 0.25 ACCUMULATE/medium; from 0.25 to
  below 0.45 ACCUMULATE/low; from 0.45 to below 0.60 HOLD/low; from 0.60 to below 0.75
  REDUCE, with urgency high when at least two drivers are bearish with high severity and
  medium otherwise; from 0.75 on EXIT/high.
\<close>

theorem recommendation_follows_table:
  "(sc < 0.15 \<longrightarrow>
      action (generateRecommendation sc ds) = ACCUMULATE \<and>
      urgency (generateRecommendation sc ds) = high) \<and>
   (0.15 \<le> sc \<and> sc < 0.25 \<longrightarrow>
      action (generateRecommendation sc ds) = ACCUMULATE \<and>
      urgency (generateRecommendation sc ds) = medium) \<and>
   (0.25 \<le> sc \<and> sc < 0.45 \<longrightarrow>
      action (generateRecommendation sc ds) = ACCUMULATE \<and>
      urgency (generateRecommendation sc ds) = low) \<and>
   (0.45 \<le> sc \<and> sc < 0.60 \<longrightarrow>
      action (generateRecommendation sc ds) = HOLD \<and>
      urgency (generateRecommendation sc ds) = low) \<and>
   (0.60 \<le> sc \<and> sc < 0.75 \<longrightarrow>
      action (generateRecommendation sc ds) = REDUCE \<and>
      urgency (generateRecommendation sc ds) =
        (if 2 \<le> length (filter (\<lambda>d. direction d = bearish \<and> severity d = high) ds)
         then high else medium)) \<and>
   (0.75 \<le> sc \<longrightarrow>
      action (generateRecommendation sc ds) = EXIT \<and>
      urgency (generateRecommendation sc ds) = high)"
  by (simp add: generateRecommendation_def Let_def)

text \<open>One score in each row of the table, the REDUCE row with and without escalation.\<close>

theorem recommendation_follows_table_witness:
  "action (generateRecommendation 0.1 []) = ACCUMULATE \<and>
   urgency (generateRecommendation 0.1 []) = high \<and>
   action (generateRecommendation 0.15 []) = ACCUMULATE \<and>
   urgency (generateRecommendation 0.15 []) = medium \<and>
   action (generateRecommendation 0.25 []) = ACCUMULATE \<and>
   urgency (generateRecommendation 0.25 []) = low \<and>
   action (generateRecommendation 0.45 []) = HOLD \<and>
   urgency (generateRecommendation 0.45 []) = low \<and>
   action (generateRecommendation 0.6 [bearishHigh]) = REDUCE \<and>
   urgency (generateRecommendation 0.6 [bearishHigh]) = medium \<and>
   action (generateRecommendation 0.7 [bearishHigh, bearishHigh]) = REDUCE \<and>
   urgency (generateRecommendation 0.7 [bearishHigh, bearishHigh]) = high \<and>
   action (generateRecommendation 0.75 []) = EXIT \<and>
   urgency (generateRecommendation 0.75 []) = high"
  using recommendation_follows_table [of "0.1" "[]"]
    recommendation_follows_table [of "0.15" "[]"]
    recommendation_follows_table [of "0.25" "[]"]
    recommendation_follows_table [of "0.45" "[]"]
    recommendation_follows_table [of "0.6" "[bearishHigh]"]
    recommendation_follows_table [of "0.7" "[bearishHigh, bearishHigh]"]
    recommendation_follows_table [of "0.75" "[]"]
  by (simp add: bearishHigh_def)

text \<open>
  Claim C10, as amended. For every timeframe, input and category, an input in which
  \<^verbatim>\<open>ma50\<close> (likewise \<^verbatim>\<open>ma200\<close>, \<^verbatim>\<open>realizedPrice\<close>, \<^verbatim>\<open>ath\<close>,
  \<^verbatim>\<open>cycleLow\<close>, \<^verbatim>\<open>activeAddresses\<close> or \<^verbatim>\<open>activeAddresses30dAvg\<close>) is 0
  yields exactly the assessment of the same input with that field absent: the metric is
  skipped before its normalizer runs. So no zero reaches a normalizer through the
  aggregator. The neutral branch of \<^verbatim>\<open>analyzeCyclePosition\<close> (score 0.5,
  confidence 0) stays reachable through the \<^verbatim>\<open>ath <= cycleLow\<close> part of its guard:
  a metric of confidence 0 in an assessment is always the cycle position of an input
  whose all-time high and cycle low are both non-zero with the high not above the low.
\<close>

theorem zero_fields_are_skipped:
  "calculateTimeframeAssessment tf (i\<lparr>ma50 := Some 0\<rparr>) c =
     calculateTimeframeAssessment tf (i\<lparr>ma50 := None\<rparr>) c \<and>
   calculateTimeframeAssessment tf (i\<lparr>ma200 := Some 0\<rparr>) c =
     calculateTimeframeAssessment tf (i\<lparr>ma200 := None\<rparr>) c \<and>
   calculateTimeframeAssessment tf (i\<lparr>realizedPrice := Some 0\<rparr>) c =
     calculateTimeframeAssessment tf (i\<lparr>realizedPrice := None\<rparr>) c \<and>
   calculateTimeframeAssessment tf (i\<lparr>ath := Some 0\<rparr>) c =
     calculateTimeframeAssessment tf (i\<lparr>ath := None\<rparr>) c \<and>
   calculateTimeframeAssessment tf (i\<lparr>cycleLow := Some 0\<rparr>) c =
     calculateTimeframeAssessment tf (i\<lparr>cycleLow := None\<rparr>) c \<and>
   calculateTimeframeAssessment tf (i\<lparr>activeAddresses := Some 0\<rparr>) c =
     calculateTimeframeAssessment tf (i\<lparr>activeAddresses := None\<rparr>) c \<and>
   calculateTimeframeAssessment tf (i\<lparr>activeAddresses30dAvg := Some 0\<rparr>) c =
     calculateTimeframeAssessment tf (i\<lparr>activeAddresses30dAvg := None\<rparr>) c \<and>
   (\<forall>m \<in> set (metrics (calculateTimeframeAssessment tf i c)).
      confidence m = 0 \<longrightarrow>
        name m = ''cyclePosition'' \<and>
        (\<exists>h l. ath i = Some h \<and> cycleLow i = Some l \<and> h \<noteq> 0 \<and> l \<noteq> 0 \<and> h \<le> l))"
proof -
  have only_cycle:
    "name m = ''cyclePosition'' \<and>
     (\<exists>h l. ath i = Some h \<and> cycleLow i = Some l \<and> h \<noteq> 0 \<and> l \<noteq> 0 \<and> h \<le> l)"
    if m: "m \<in> set (metrics (calculateTimeframeAssessment tf i c))" and z: "confidence m = 0"
    for m
  proof -
    from m have "m \<in> set (acc_metrics
        (runBlocks (map_of (TIMEFRAME_WEIGHTS tf)) (candidates i c) initAcc))"
      by (simp add: calculateTimeframeAssessment_def Let_def)
    from runBlocks_origin [OF this] obtain k a wv where
      ka: "(k, Some a) \<in> set (candidates i c)" and ma: "m = a\<lparr>weight := wv\<rparr>"
      by (auto simp add: initAcc_def)
    from ma z have "confidence a = 0" by simp
    from candidates_conf0 [OF ka this] ma show ?thesis by simp
  qed
  show ?thesis
    using only_cycle by (simp add: calculateTimeframeAssessment_def zero_is_absent)
qed

text \<open>
  At the long timeframe of the inverted-cycle input the cycle position is the one metric,
  with confidence 0, and the input is as the theorem says.
\<close>

theorem zero_fields_are_skipped_witness:
  "calculateTimeframeAssessment tf_long (invertedCycle\<lparr>ma200 := Some 0\<rparr>) core =
     calculateTimeframeAssessment tf_long (invertedCycle\<lparr>ma200 := None\<rparr>) core \<and>
   (\<exists>m. m \<in> set (metrics (calculateTimeframeAssessment tf_long invertedCycle core)) \<and>
        confidence m = 0 \<and> name m = ''cyclePosition'') \<and>
   (\<exists>h l. ath invertedCycle = Some h \<and> cycleLow invertedCycle = Some l \<and>
          h \<noteq> 0 \<and> l \<noteq> 0 \<and> h \<le> l)"
proof -
  let ?m = "\<lparr>name = ''cyclePosition'', mvalue = 0, normalizedScore = 0.5, weight = 0.18,
             confidence = 0, reason = (''no data'', None)\<rparr>"
  note t = zero_fields_are_skipped [of tf_long invertedCycle core]
  have inm: "?m \<in> set (metrics (calculateTimeframeAssessment tf_long invertedCycle core))"
    using invertedCycle_long by simp
  have z: "confidence ?m = 0" by simp
  from t inm z have
    "name ?m = ''cyclePosition'' \<and>
     (\<exists>h l. ath invertedCycle = Some h \<and> cycleLow invertedCycle = Some l \<and>
            h \<noteq> 0 \<and> l \<noteq> 0 \<and> h \<le> l)"
    by blast
  with t inm z show ?thesis by blast
qed

text \<open>
  Claim C10 as stated fails in its last part: the neutral branch of
  \<^verbatim>\<open>analyzeCyclePosition\<close> is reached through the aggregator. With all-time high 1
  and cycle low 2 the long-term assessment holds exactly the cycle-position metric with
  score 0.5 and confidence 0; its weight 0.18 is counted, so the overvaluation score is 0.
\<close>

theorem cycle_guard_reached_through_aggregator:
  "ath invertedCycle = Some 1 \<and> cycleLow invertedCycle = Some 2 \<and>
   metrics (calculateTimeframeAssessment tf_long invertedCycle core) =
     [\<lparr>name = ''cyclePosition'', mvalue = 0, normalizedScore = 0.5, weight = 0.18,
       confidence = 0, reason = (''no data'', None)\<rparr>] \<and>
   overvaluationScore (calculateTimeframeAssessment tf_long invertedCycle core) = 0"
  using invertedCycle_long by (simp add: invertedCycle_def bareInput_def)

end
